theory Spec2Isabelle
  imports Complex_Main
begin

section \<open>Python values\<close>

text \<open>
  The program is dynamically typed Python: issues are dicts built from literals, syntax
  tree nodes are objects read through attributes, and configuration comes from YAML.
  One datatype holds every value the modelled code touches. An object is the list of the
  names of its classes (its own class first, then its base classes) and its attributes
  in field order; a dict is its items in insertion order, keyed by strings.
\<close>

datatype pyval =
    PNone
  | PBool bool
  | PInt int
  | PStr string
  | PList "pyval list"
  | PDict "(string \<times> pyval) list"
  | PObj "string list" "(string \<times> pyval) list"

type_synonym pydict = "(string \<times> pyval) list"

text \<open>The exceptions the modelled code can raise, by class.\<close>

datatype error =
    NameError string
  | AttributeError string
  | KeyError string
  | TypeError string
  | IndexError string
  | RuntimeError string
  | ConnectionError string
  | ValueError string
  | UnicodeEncodeError string

text \<open>
  \<open>d[k] = v\<close> on a dict: an existing key keeps its place, a new key goes last.
\<close>

fun dict_set :: "pydict \<Rightarrow> string \<Rightarrow> pyval \<Rightarrow> pydict" where
  "dict_set [] k v = [(k, v)]"
| "dict_set ((k', v') # kvs) k v =
     (if k' = k then (k, v) # kvs else (k', v') # dict_set kvs k v)"

text \<open>\<open>d[k]\<close> on a dict raises KeyError for a missing key.\<close>

definition dict_get :: "pydict \<Rightarrow> string \<Rightarrow> error + pyval" where
  "dict_get d k = (case map_of d k of None \<Rightarrow> Inl (KeyError k) | Some v \<Rightarrow> Inr v)"

text \<open>Decimal digits of an integer, as \<open>str\<close> prints it.\<close>

fun digits_of :: "nat \<Rightarrow> string" where
  "digits_of n =
     (if n < 10 then [char_of (48 + n)] else digits_of (n div 10) @ [char_of (48 + n mod 10)])"

definition int_str :: "int \<Rightarrow> string" where
  "int_str i = (if i < 0 then CHR ''-'' # digits_of (nat (- i)) else digits_of (nat i))"

definition join_with :: "string \<Rightarrow> string list \<Rightarrow> string" where
  "join_with sep xs = (case xs of [] \<Rightarrow> [] | y # ys \<Rightarrow> y @ concat (map (\<lambda>z. sep @ z) ys))"

text \<open>
  \<open>str(v)\<close>, which an f-string applies to each value it interpolates. A string is
  itself; inside a list or a dict it is quoted (escapes are not modelled); an object is
  shown by its class name and its fields on one line.
\<close>

fun py_repr :: "pyval \<Rightarrow> string" where
  "py_repr PNone = ''None''"
| "py_repr (PBool b) = (if b then ''True'' else ''False'')"
| "py_repr (PInt i) = int_str i"
| "py_repr (PStr s) = [CHR 0x27] @ s @ [CHR 0x27]"
| "py_repr (PList xs) = ''['' @ join_with '', '' (map py_repr xs) @ '']''"
| "py_repr (PDict kvs) =
     ''{'' @ join_with '', '' (map (\<lambda>kv. [CHR 0x27] @ fst kv @ [CHR 0x27] @ '': '' @ py_repr (snd kv)) kvs) @ ''}''"
| "py_repr (PObj cs attrs) =
     (case cs of [] \<Rightarrow> ''object'' | c # _ \<Rightarrow> c) @ ''('' @
     join_with '', '' (map (\<lambda>kv. fst kv @ ''='' @ py_repr (snd kv)) attrs) @ '')''"

definition py_str :: "pyval \<Rightarrow> string" where
  "py_str v = (case v of PStr s \<Rightarrow> s | _ \<Rightarrow> py_repr v)"

section \<open>Objects and syntax trees\<close>

text \<open>
  Attribute access, as \<open>getattr\<close>, \<open>hasattr\<close> and the dot do it: reading an
  attribute an object does not have raises AttributeError. Values that are not objects
  have none of the attributes the modelled code reads from nodes.
\<close>

definition getattr :: "pyval \<Rightarrow> string \<Rightarrow> error + pyval" where
  "getattr v name =
     (case v of
        PObj cs attrs \<Rightarrow>
          (case map_of attrs name of Some x \<Rightarrow> Inr x | None \<Rightarrow> Inl (AttributeError name))
      | _ \<Rightarrow> Inl (AttributeError name))"

definition getattr_default :: "pyval \<Rightarrow> string \<Rightarrow> pyval \<Rightarrow> pyval" where
  "getattr_default v name d = (case getattr v name of Inr x \<Rightarrow> x | Inl e \<Rightarrow> d)"

definition hasattr :: "pyval \<Rightarrow> string \<Rightarrow> bool" where
  "hasattr v name = (case getattr v name of Inr x \<Rightarrow> True | Inl e \<Rightarrow> False)"

text \<open>\<open>isinstance(v, cls)\<close> for a class given by name.\<close>

definition py_isinstance :: "pyval \<Rightarrow> string \<Rightarrow> bool" where
  "py_isinstance v cls =
     (case v of
        PObj cs attrs \<Rightarrow> cls \<in> set cs
      | PStr s \<Rightarrow> cls = ''str'' \<or> cls = ''object''
      | PInt i \<Rightarrow> cls = ''int'' \<or> cls = ''object''
      | PBool b \<Rightarrow> cls = ''bool'' \<or> cls = ''int'' \<or> cls = ''object''
      | PList xs \<Rightarrow> cls = ''list'' \<or> cls = ''object''
      | PDict kvs \<Rightarrow> cls = ''dict'' \<or> cls = ''object''
      | PNone \<Rightarrow> cls = ''NoneType'' \<or> cls = ''object'')"

text \<open>Truth value of a value in a condition.\<close>

definition py_truthy :: "pyval \<Rightarrow> bool" where
  "py_truthy v =
     (case v of
        PNone \<Rightarrow> False
      | PBool b \<Rightarrow> b
      | PInt i \<Rightarrow> i \<noteq> 0
      | PStr s \<Rightarrow> s \<noteq> []
      | PList xs \<Rightarrow> xs \<noteq> []
      | PDict kvs \<Rightarrow> kvs \<noteq> []
      | PObj cs attrs \<Rightarrow> True)"

text \<open>\<open>v[0]\<close>.\<close>

definition py_index0 :: "pyval \<Rightarrow> error + pyval" where
  "py_index0 v =
     (case v of
        PList xs \<Rightarrow> (case xs of [] \<Rightarrow> Inl (IndexError ''list index out of range'') | x # _ \<Rightarrow> Inr x)
      | PStr s \<Rightarrow> (case s of [] \<Rightarrow> Inl (IndexError ''string index out of range'') | c # _ \<Rightarrow> Inr (PStr [c]))
      | PDict kvs \<Rightarrow> Inl (KeyError ''0'')
      | _ \<Rightarrow> Inl (TypeError ''not subscriptable''))"

text \<open>The items a \<open>for\<close> loop takes from a value; a node or a number is not iterable.\<close>

definition py_iter :: "pyval \<Rightarrow> error + pyval list" where
  "py_iter v =
     (case v of
        PList xs \<Rightarrow> Inr xs
      | PStr s \<Rightarrow> Inr (map (\<lambda>c. PStr [c]) s)
      | PDict kvs \<Rightarrow> Inr (map (\<lambda>kv. PStr (fst kv)) kvs)
      | _ \<Rightarrow> Inl (TypeError ''not iterable''))"

text \<open>Strings: \<open>a in b\<close> for two strings, and \<open>str.lower\<close> on ASCII letters.\<close>

fun starts_with :: "'a list \<Rightarrow> 'a list \<Rightarrow> bool" where
  "starts_with [] ys = True"
| "starts_with (x # xs) [] = False"
| "starts_with (x # xs) (y # ys) = (x = y \<and> starts_with xs ys)"

fun is_substring :: "'a list \<Rightarrow> 'a list \<Rightarrow> bool" where
  "is_substring p [] = (p = [])"
| "is_substring p (y # ys) = (starts_with p (y # ys) \<or> is_substring p ys)"

definition lower_char :: "char \<Rightarrow> char" where
  "lower_char c =
     (if 65 \<le> (of_char c :: nat) \<and> (of_char c :: nat) \<le> 90 then char_of ((of_char c :: nat) + 32) else c)"

definition py_lower :: "pyval \<Rightarrow> error + string" where
  "py_lower v = (case v of PStr s \<Rightarrow> Inr (map lower_char s) | _ \<Rightarrow> Inl (AttributeError ''lower''))"

text \<open>
  The nodes of a tree in document order (a node before its children, children in field
  order): what a libcst visitor, and so \<open>m.findall\<close>, walks through.
\<close>

fun subnodes :: "pyval \<Rightarrow> pyval list" where
  "subnodes (PObj cs attrs) = PObj cs attrs # concat (map (\<lambda>kv. subnodes (snd kv)) attrs)"
| "subnodes (PList xs) = concat (map subnodes xs)"
| "subnodes v = []"

text \<open>
  A matcher is a test on a node that may raise (a \<open>MatchIfTrue\<close> guard is arbitrary
  code, and libcst does not catch what it raises); \<open>findall\<close> collects the nodes
  that match and stops at the first error.
\<close>

fun filter_err :: "('a \<Rightarrow> error + bool) \<Rightarrow> 'a list \<Rightarrow> error + 'a list" where
  "filter_err p [] = Inr []"
| "filter_err p (x # xs) =
     (case p x of
        Inl e \<Rightarrow> Inl e
      | Inr b \<Rightarrow>
          (case filter_err p xs of
             Inl e \<Rightarrow> Inl e
           | Inr ys \<Rightarrow> Inr (if b then x # ys else ys)))"

definition findall :: "pyval \<Rightarrow> (pyval \<Rightarrow> error + bool) \<Rightarrow> error + pyval list" where
  "findall tree matcher = filter_err matcher (subnodes tree)"

text \<open>Sequencing of steps that may raise.\<close>

definition bind_err :: "error + 'a \<Rightarrow> ('a \<Rightarrow> error + 'b) \<Rightarrow> error + 'b" where
  "bind_err m f = (case m of Inl e \<Rightarrow> Inl e | Inr x \<Rightarrow> f x)"

fun map_err :: "('a \<Rightarrow> error + 'b) \<Rightarrow> 'a list \<Rightarrow> error + 'b list" where
  "map_err f [] = Inr []"
| "map_err f (x # xs) =
     bind_err (f x) (\<lambda>y. bind_err (map_err f xs) (\<lambda>ys. Inr (y # ys)))"

text \<open>
  Builders for the node classes the scenarios use, with the fields of libcst that hold
  nodes or text (whitespace fields hold no node any rule matches and are left out).
  \<open>code\<close> is the text the module serialises to.
\<close>

definition cst_node :: "string \<Rightarrow> (string \<times> pyval) list \<Rightarrow> pyval" where
  "cst_node cls fields = PObj [cls, ''CSTNode'', ''object''] fields"

definition Name :: "string \<Rightarrow> pyval" where
  "Name v = cst_node ''Name'' [(''value'', PStr v)]"

definition SimpleString :: "string \<Rightarrow> pyval" where
  "SimpleString v = cst_node ''SimpleString'' [(''value'', PStr v)]"

definition Integer :: "string \<Rightarrow> pyval" where
  "Integer v = cst_node ''Integer'' [(''value'', PStr v)]"

definition AssignTarget :: "pyval \<Rightarrow> pyval" where
  "AssignTarget t = cst_node ''AssignTarget'' [(''target'', t)]"

definition Assign :: "pyval list \<Rightarrow> pyval \<Rightarrow> pyval" where
  "Assign targets v = cst_node ''Assign'' [(''targets'', PList targets), (''value'', v)]"

definition ImportAlias :: "pyval \<Rightarrow> pyval \<Rightarrow> pyval" where
  "ImportAlias n asname = cst_node ''ImportAlias'' [(''name'', n), (''asname'', asname)]"

definition Import :: "pyval list \<Rightarrow> pyval" where
  "Import names = cst_node ''Import'' [(''names'', PList names)]"

definition Arg :: "pyval \<Rightarrow> pyval" where
  "Arg v = cst_node ''Arg'' [(''value'', v)]"

definition Call :: "pyval \<Rightarrow> pyval list \<Rightarrow> pyval" where
  "Call f args = cst_node ''Call'' [(''func'', f), (''args'', PList args)]"

definition SimpleStatementLine :: "pyval list \<Rightarrow> pyval" where
  "SimpleStatementLine body = cst_node ''SimpleStatementLine'' [(''body'', PList body)]"

definition Module :: "pyval list \<Rightarrow> string \<Rightarrow> pyval" where
  "Module body code = cst_node ''Module'' [(''body'', PList body), (''code'', PStr code)]"

text \<open>
  The rules read a node's position as \<open>node.lineno\<close> and \<open>node.col_offset\<close>;
  \<open>with_pos\<close> gives a node these two attributes.
\<close>

definition with_pos :: "int \<Rightarrow> int \<Rightarrow> pyval \<Rightarrow> pyval" where
  "with_pos l c v =
     (case v of
        PObj cs attrs \<Rightarrow> PObj cs (attrs @ [(''lineno'', PInt l), (''col_offset'', PInt c)])
      | _ \<Rightarrow> v)"

text \<open>\<open>s.split(sep)\<close> for a separator of one character: never an empty list.\<close>

fun split_on :: "'a \<Rightarrow> 'a list \<Rightarrow> 'a list list" where
  "split_on sep [] = [[]]"
| "split_on sep (c # cs) =
     (if c = sep then [] # split_on sep cs
      else (case split_on sep cs of [] \<Rightarrow> [[c]] | l # ls \<Rightarrow> (c # l) # ls))"

text \<open>The lines of a text, as \<open>str.split('\n')\<close> gives them.\<close>

definition split_lines :: "string \<Rightarrow> string list" where
  "split_lines s = split_on (CHR 0x0A) s"

section \<open>The fixer (core/fixer.py)\<close>

text \<open>
  \<open>CodeFixer\<close> holds \<open>module\<close> and \<open>changes\<close>, the list of applied fixes. The three handlers are
  the only attributes of a \<open>CodeFixer\<close> whose name starts with \<open>_fix_\<close>, so
  \<open>getattr(self, f"_fix_{...}", None)\<close> finds one of them or \<open>None\<close>.
\<close>

record CodeFixer =
  fixer_module :: pyval
  fixer_changes :: "pydict list"

definition CodeFixer_init :: "pyval \<Rightarrow> CodeFixer" where
  "CodeFixer_init m = \<lparr>fixer_module = m, fixer_changes = []\<rparr>"

datatype fix_method = Fix_remove_node | Fix_replace_node | Fix_insert_code

definition getattr_fix :: "string \<Rightarrow> fix_method option" where
  "getattr_fix name =
     (if name = ''_fix_remove_node'' then Some Fix_remove_node
      else if name = ''_fix_replace_node'' then Some Fix_replace_node
      else if name = ''_fix_insert_code'' then Some Fix_insert_code
      else None)"

text \<open>Each handler returns \<open>self.module\<close>; none of them can raise.\<close>

definition fix_remove_node :: "CodeFixer \<Rightarrow> pydict \<Rightarrow> error + pyval" where
  "fix_remove_node self issue = Inr (fixer_module self)"

definition fix_replace_node :: "CodeFixer \<Rightarrow> pydict \<Rightarrow> error + pyval" where
  "fix_replace_node self issue = Inr (fixer_module self)"

definition fix_insert_code :: "CodeFixer \<Rightarrow> pydict \<Rightarrow> error + pyval" where
  "fix_insert_code self issue = Inr (fixer_module self)"

fun call_fix :: "fix_method \<Rightarrow> CodeFixer \<Rightarrow> pydict \<Rightarrow> error + pyval" where
  "call_fix Fix_remove_node self issue = fix_remove_node self issue"
| "call_fix Fix_replace_node self issue = fix_replace_node self issue"
| "call_fix Fix_insert_code self issue = fix_insert_code self issue"

text \<open>
  The handler \<open>apply_fixes\<close> looks up for an issue: \<open>None\<close> when the issue has no
  \<open>fix_type\<close> key (the loop's \<open>continue\<close>) or when no method has that name.
\<close>

definition fix_method_of :: "pydict \<Rightarrow> fix_method option" where
  "fix_method_of issue =
     (case map_of issue ''fix_type'' of
        None \<Rightarrow> None
      | Some t \<Rightarrow> getattr_fix (''_fix_'' @ py_str t))"

text \<open>
  One round of the loop of \<open>apply_fixes\<close>. The state is the fixer and what has been
  printed so far; the only \<open>print\<close> is in the \<open>except\<close> branch, which also reads
  \<open>issue['rule']\<close>.
\<close>

definition apply_fix_step :: "CodeFixer \<times> string list \<Rightarrow> pydict \<Rightarrow> CodeFixer \<times> string list" where
  "apply_fix_step st issue =
     (case fix_method_of issue of
        None \<Rightarrow> st
      | Some fm \<Rightarrow>
          (case call_fix fm (fst st) issue of
             Inr m \<Rightarrow> ((fst st)\<lparr>fixer_module := m, fixer_changes := fixer_changes (fst st) @ [issue]\<rparr>, snd st)
           | Inl e \<Rightarrow>
               (fst st, snd st @ [''Failed to fix '' @
                  (case map_of issue ''rule'' of Some r \<Rightarrow> py_str r | None \<Rightarrow> '''')])))"

fun apply_fixes_loop :: "CodeFixer \<times> string list \<Rightarrow> pydict list \<Rightarrow> CodeFixer \<times> string list" where
  "apply_fixes_loop st [] = st"
| "apply_fixes_loop st (issue # issues) = apply_fixes_loop (apply_fix_step st issue) issues"

text \<open>
  \<open>apply_fixes\<close> returns \<open>self.module\<close>; the model also returns the fixer as the
  call leaves it and the lines it printed.
\<close>

definition apply_fixes :: "CodeFixer \<Rightarrow> pydict list \<Rightarrow> pyval \<times> CodeFixer \<times> string list" where
  "apply_fixes self issues =
     (let st = apply_fixes_loop (self, []) issues in (fixer_module (fst st), fst st, snd st))"

definition generate_diff :: "CodeFixer \<Rightarrow> string" where
  "generate_diff self = ''No changes applied''"

section \<open>The rules (rules/security.py, rules/convention.py, rules/performance.py)\<close>

text \<open>
  Each rule's \<open>apply\<close> takes the module and returns the list of issues, each a dict
  literal. An exception raised while matching or while building an issue leaves
  \<open>apply\<close>: none of the rules has a handler.
\<close>

subsection \<open>HardcodedSecretRule\<close>

definition secrets_keywords :: "string list" where
  "secrets_keywords = [''password'', ''secret'', ''token'', ''key'']"

text \<open>
  The \<open>MatchIfTrue\<close> guard:
  \<open>any(keyword in getattr(n.targets[0].target, 'value', '').lower() for keyword in ...)\<close>.
\<close>

definition secret_guard :: "pyval \<Rightarrow> error + bool" where
  "secret_guard n =
     bind_err (getattr n ''targets'') (\<lambda>ts.
     bind_err (py_index0 ts) (\<lambda>t0.
     bind_err (getattr t0 ''target'') (\<lambda>tgt.
     bind_err (py_lower (getattr_default tgt ''value'' (PStr []))) (\<lambda>low.
     Inr (list_ex (\<lambda>keyword. is_substring keyword low) secrets_keywords)))))"

definition secret_matcher :: "pyval \<Rightarrow> error + bool" where
  "secret_matcher n =
     (if py_isinstance n ''Assign'' \<and>
         (case getattr n ''value'' of Inr v \<Rightarrow> py_isinstance v ''SimpleString'' | Inl e \<Rightarrow> False)
      then secret_guard n else Inr False)"

definition secret_issue :: "pyval \<Rightarrow> error + pydict" where
  "secret_issue match =
     bind_err (getattr match ''targets'') (\<lambda>ts.
     bind_err (py_index0 ts) (\<lambda>t0.
     bind_err (getattr t0 ''target'') (\<lambda>tgt.
     bind_err (getattr tgt ''value'') (\<lambda>tv.
     bind_err (getattr match ''lineno'') (\<lambda>l.
     bind_err (getattr match ''col_offset'') (\<lambda>c.
     Inr [(''rule'', PStr ''hardcoded_secret''),
          (''message'', PStr (''Hardcoded secret detected in '' @ py_str tv)),
          (''line'', l),
          (''column'', c),
          (''severity'', PStr ''error''),
          (''fix_type'', PStr ''replace''),
          (''suggestion'', PStr ''Use environment variables instead (os.getenv)''),
          (''node'', match)]))))))"

definition HardcodedSecretRule_apply :: "pyval \<Rightarrow> error + pydict list" where
  "HardcodedSecretRule_apply node = bind_err (findall node secret_matcher) (map_err secret_issue)"

subsection \<open>UnsafeEvalRule\<close>

definition eval_matcher :: "pyval \<Rightarrow> error + bool" where
  "eval_matcher n =
     Inr (py_isinstance n ''Call'' \<and>
          (case getattr n ''func'' of
             Inr f \<Rightarrow> py_isinstance f ''Name'' \<and> getattr f ''value'' = Inr (PStr ''eval'')
           | Inl e \<Rightarrow> False))"

definition eval_issue :: "pyval \<Rightarrow> error + pydict" where
  "eval_issue match =
     bind_err (getattr match ''lineno'') (\<lambda>l.
     bind_err (getattr match ''col_offset'') (\<lambda>c.
     Inr [(''rule'', PStr ''unsafe_eval''),
          (''message'', PStr ''Potential code execution vulnerability through eval()''),
          (''line'', l),
          (''column'', c),
          (''severity'', PStr ''error''),
          (''fix_type'', PStr ''remove''),
          (''suggestion'', PStr ''Replace with ast.literal_eval() or input validation''),
          (''node'', match)]))"

definition UnsafeEvalRule_apply :: "pyval \<Rightarrow> error + pydict list" where
  "UnsafeEvalRule_apply node = bind_err (findall node eval_matcher) (map_err eval_issue)"

subsection \<open>UnusedImportRule\<close>

text \<open>
  \<open>name.asname.name.value if name.asname else name.name.value\<close>, for one entry of
  \<open>imp.names\<close>.
\<close>

definition import_alias :: "pyval \<Rightarrow> error + pyval" where
  "import_alias name =
     bind_err (getattr name ''asname'') (\<lambda>asname.
       if py_truthy asname
       then bind_err (getattr asname ''name'') (\<lambda>n. getattr n ''value'')
       else bind_err (getattr name ''name'') (\<lambda>n. getattr n ''value''))"

text \<open>
  \<open>imports[alias] = imp\<close>. A string key that is already there keeps its place and
  takes the new import. A node compares equal to itself only, and each alias node is met
  once, so any other key is a new entry.
\<close>

fun imports_set :: "(pyval \<times> pyval) list \<Rightarrow> pyval \<Rightarrow> pyval \<Rightarrow> (pyval \<times> pyval) list" where
  "imports_set [] k v = [(k, v)]"
| "imports_set ((k', v') # kvs) k v =
     (if k' = k \<and> py_isinstance k ''str'' then (k, v) # kvs else (k', v') # imports_set kvs k v)"

fun imports_names :: "(pyval \<times> pyval) list \<Rightarrow> pyval \<Rightarrow> bool \<Rightarrow> pyval list \<Rightarrow> error + (pyval \<times> pyval) list" where
  "imports_names imports imp is_from [] = Inr imports"
| "imports_names imports imp is_from (name # names) =
     bind_err (if is_from
               then bind_err (getattr name ''name'') (\<lambda>n. getattr n ''value'')
               else Inr PNone) (\<lambda>full_name_part.
     bind_err (import_alias name) (\<lambda>a.
     imports_names (imports_set imports a imp) imp is_from names))"

fun collect_imports :: "(pyval \<times> pyval) list \<Rightarrow> pyval list \<Rightarrow> error + (pyval \<times> pyval) list" where
  "collect_imports imports [] = Inr imports"
| "collect_imports imports (imp # imps) =
     (if py_isinstance imp ''Import''
      then bind_err (getattr imp ''names'') (\<lambda>ns.
           bind_err (py_iter ns) (\<lambda>names.
           bind_err (imports_names imports imp False names) (\<lambda>imports'.
           collect_imports imports' imps)))
      else bind_err (getattr imp ''module'') (\<lambda>md.
           bind_err (if py_truthy md then getattr md ''value'' else Inr (PStr [])) (\<lambda>module_name.
           bind_err (getattr imp ''names'') (\<lambda>ns.
           bind_err (py_iter ns) (\<lambda>names.
           bind_err (imports_names imports imp True names) (\<lambda>imports'.
           collect_imports imports' imps))))))"

definition used_name :: "pyval \<Rightarrow> error + pyval" where
  "used_name name_node =
     bind_err (getattr name_node ''value'') (\<lambda>v.
       if py_isinstance v ''list'' \<or> py_isinstance v ''dict''
       then Inl (TypeError ''unhashable type'') else Inr v)"

definition unused_import_issue :: "pyval \<times> pyval \<Rightarrow> error + pydict" where
  "unused_import_issue entry =
     bind_err (getattr (snd entry) ''lineno'') (\<lambda>l.
     bind_err (getattr (snd entry) ''col_offset'') (\<lambda>c.
     Inr [(''rule'', PStr ''unused_import''),
          (''message'', PStr (''Unused import: '' @ py_str (fst entry))),
          (''line'', l),
          (''column'', c),
          (''severity'', PStr ''warning''),
          (''fix_type'', PStr ''remove''),
          (''suggestion'', PStr ''Remove this unused import''),
          (''node'', snd entry)]))"

definition UnusedImportRule_apply :: "pyval \<Rightarrow> error + pydict list" where
  "UnusedImportRule_apply node =
     bind_err (findall node (\<lambda>n. Inr (py_isinstance n ''Import'' \<or> py_isinstance n ''ImportFrom''))) (\<lambda>imps.
     bind_err (collect_imports [] imps) (\<lambda>imports.
     bind_err (findall node (\<lambda>n. Inr (py_isinstance n ''Name''))) (\<lambda>name_nodes.
     bind_err (map_err used_name name_nodes) (\<lambda>used_names.
     map_err unused_import_issue (filter (\<lambda>entry. fst entry \<notin> set used_names) imports)))))"

subsection \<open>NamingConventionRule\<close>

text \<open>
  \<open>re.match(r'^[a-z_][a-z0-9_]*$', name)\<close>: \<open>$\<close> also matches just before a newline
  that ends the string.
\<close>

definition snake_first :: "char \<Rightarrow> bool" where
  "snake_first c = ((97 \<le> (of_char c :: nat) \<and> (of_char c :: nat) \<le> 122) \<or> c = CHR ''_'')"

definition snake_rest :: "char \<Rightarrow> bool" where
  "snake_rest c = (snake_first c \<or> (48 \<le> (of_char c :: nat) \<and> (of_char c :: nat) \<le> 57))"

definition is_snake_case :: "pyval \<Rightarrow> error + bool" where
  "is_snake_case name =
     (case name of
        PStr s \<Rightarrow>
          Inr (case s of
                 [] \<Rightarrow> False
               | c # cs \<Rightarrow>
                   snake_first c \<and>
                   (list_all snake_rest cs \<or>
                    (cs \<noteq> [] \<and> last cs = CHR 0x0A \<and> list_all snake_rest (butlast cs))))
      | _ \<Rightarrow> Inl (TypeError ''expected string or bytes-like object''))"

text \<open>\<open>re.sub(r'(?<!^)(?=[A-Z])', '_', name).lower()\<close>.\<close>

definition is_upper :: "char \<Rightarrow> bool" where
  "is_upper c = (65 \<le> (of_char c :: nat) \<and> (of_char c :: nat) \<le> 90)"

definition to_snake_case :: "pyval \<Rightarrow> error + string" where
  "to_snake_case name =
     (case name of
        PStr s \<Rightarrow>
          Inr (map lower_char
                 (case s of
                    [] \<Rightarrow> []
                  | c # cs \<Rightarrow> c # concat (map (\<lambda>d. if is_upper d then [CHR ''_'', d] else [d]) cs)))
      | _ \<Rightarrow> Inl (TypeError ''expected string or bytes-like object''))"

definition var_name :: "pyval \<Rightarrow> error + pyval" where
  "var_name n =
     bind_err (getattr n ''targets'') (\<lambda>ts.
     bind_err (py_index0 ts) (\<lambda>t0.
     bind_err (getattr t0 ''target'') (\<lambda>tgt. getattr tgt ''value'')))"

definition func_name :: "pyval \<Rightarrow> error + pyval" where
  "func_name n = bind_err (getattr n ''name'') (\<lambda>nm. getattr nm ''value'')"

definition var_matcher :: "pyval \<Rightarrow> error + bool" where
  "var_matcher n =
     (if py_isinstance n ''Assign'' \<and>
         (case getattr n ''targets'' of
            Inr (PList [t]) \<Rightarrow>
              py_isinstance t ''AssignTarget'' \<and>
              (case getattr t ''target'' of Inr x \<Rightarrow> py_isinstance x ''Name'' | Inl e \<Rightarrow> False)
          | _ \<Rightarrow> False)
      then bind_err (var_name n) (\<lambda>v. bind_err (is_snake_case v) (\<lambda>b. Inr (\<not> b)))
      else Inr False)"

definition func_matcher :: "pyval \<Rightarrow> error + bool" where
  "func_matcher n =
     (if py_isinstance n ''FunctionDef'' \<and>
         (case getattr n ''name'' of Inr x \<Rightarrow> py_isinstance x ''Name'' | Inl e \<Rightarrow> False)
      then bind_err (func_name n) (\<lambda>v. bind_err (is_snake_case v) (\<lambda>b. Inr (\<not> b)))
      else Inr False)"

definition naming_issue :: "string \<Rightarrow> (pyval \<Rightarrow> error + pyval) \<Rightarrow> pyval \<Rightarrow> error + pydict" where
  "naming_issue kind name_of match =
     bind_err (name_of match) (\<lambda>nm.
     bind_err (getattr match ''lineno'') (\<lambda>l.
     bind_err (getattr match ''col_offset'') (\<lambda>c.
     bind_err (name_of match) (\<lambda>nm'.
     bind_err (to_snake_case nm') (\<lambda>snake.
     Inr [(''rule'', PStr ''naming_convention''),
          (''message'', PStr (kind @ '' name '' @ [CHR 0x27] @ py_str nm @ [CHR 0x27] @ '' should be snake_case'')),
          (''line'', l),
          (''column'', c),
          (''severity'', PStr ''warning''),
          (''fix_type'', PStr ''rename''),
          (''suggestion'', PStr snake),
          (''node'', match)])))))"

definition NamingConventionRule_apply :: "pyval \<Rightarrow> error + pydict list" where
  "NamingConventionRule_apply node =
     bind_err (findall node var_matcher) (\<lambda>vars.
     bind_err (map_err (naming_issue ''Variable'' var_name) vars) (\<lambda>var_issues.
     bind_err (findall node func_matcher) (\<lambda>funcs.
     bind_err (map_err (naming_issue ''Function'' func_name) funcs) (\<lambda>func_issues.
     Inr (var_issues @ func_issues)))))"

subsection \<open>RepeatedCalculationRule\<close>

text \<open>
  \<open>apply\<close> first builds the matcher \<open>m.ListComp(element=m.Call())\<close>. The
  \<open>ListComp\<close> matcher of libcst has the fields \<open>elt\<close> and \<open>for_in\<close> (and the
  bracket and parenthesis fields) and none called \<open>element\<close>, so its constructor
  raises TypeError: \<open>apply\<close> raises before it looks at the tree, on every input.
\<close>

definition repeated_call_matcher :: "error + (pyval \<Rightarrow> error + bool)" where
  "repeated_call_matcher =
     Inl (TypeError ''ListComp.__init__() got an unexpected keyword argument element'')"

text \<open>
  The body of the loop over the matches, which reads \<open>match.element.func\<close> and builds
  the issue with \<open>fix_type\<close> \<open>refactor\<close> when the call's function has a truthy
  \<open>value\<close>.
\<close>

definition repeated_issue :: "pyval \<Rightarrow> error + pydict option" where
  "repeated_issue match =
     bind_err (getattr match ''element'') (\<lambda>el.
     bind_err (getattr el ''func'') (\<lambda>f.
       let fname = getattr_default f ''value'' PNone in
       if py_truthy fname
       then bind_err (getattr match ''lineno'') (\<lambda>l.
            bind_err (getattr match ''col_offset'') (\<lambda>c.
            Inr (Some
              [(''rule'', PStr ''repeated_calculation''),
               (''message'', PStr (''Repeated call to '' @ py_str fname @ '' in list comprehension'')),
               (''line'', l),
               (''column'', c),
               (''severity'', PStr ''warning''),
               (''fix_type'', PStr ''refactor''),
               (''suggestion'', PStr ''Move the calculation outside the loop''),
               (''node'', match)])))
       else Inr None))"

definition RepeatedCalculationRule_apply :: "pyval \<Rightarrow> error + pydict list" where
  "RepeatedCalculationRule_apply node =
     bind_err repeated_call_matcher (\<lambda>matcher.
     bind_err (findall node matcher) (\<lambda>ms.
     bind_err (map_err repeated_issue ms) (\<lambda>found.
     Inr (concat (map (\<lambda>x. case x of None \<Rightarrow> [] | Some i \<Rightarrow> [i]) found)))))"

section \<open>Scenario inputs\<close>

text \<open>
  Scenario A: the text \<open>password = "letmein123"\<close> and the module libcst's parser
  builds for it, one assignment of a string literal to a name. The nodes libcst builds
  have no \<open>lineno\<close> and no \<open>col_offset\<close> attribute. The finding is the one the
  scenario expects of the hardcoded-secret rule, aimed at the assignment.
\<close>

definition scenario_A_text :: string where
  "scenario_A_text = ''password = '' @ [CHR 0x22] @ ''letmein123'' @ [CHR 0x22]"

definition scenario_A_bare_assign :: pyval where
  "scenario_A_bare_assign =
     Assign [AssignTarget (Name ''password'')]
            (SimpleString ([CHR 0x22] @ ''letmein123'' @ [CHR 0x22]))"

definition scenario_A_bare_module :: pyval where
  "scenario_A_bare_module = Module [SimpleStatementLine [scenario_A_bare_assign]] scenario_A_text"

definition scenario_A_bare_finding :: pydict where
  "scenario_A_bare_finding =
     [(''rule'', PStr ''hardcoded_secret''),
      (''message'', PStr ''Hardcoded secret detected in password''),
      (''line'', PInt 1),
      (''column'', PInt 0),
      (''severity'', PStr ''error''),
      (''fix_type'', PStr ''replace''),
      (''suggestion'', PStr ''Use environment variables instead (os.getenv)''),
      (''node'', scenario_A_bare_assign)]"

text \<open>
  The same tree with the two attributes the rules read set on the assignment
  (\<open>lineno\<close> 1, \<open>col_offset\<close> 0), and the issue the rule builds from it.
\<close>

definition scenario_A_assign :: pyval where
  "scenario_A_assign =
     with_pos 1 0 (Assign [AssignTarget (Name ''password'')]
                          (SimpleString ([CHR 0x22] @ ''letmein123'' @ [CHR 0x22])))"

definition scenario_A_module :: pyval where
  "scenario_A_module = Module [SimpleStatementLine [scenario_A_assign]] scenario_A_text"

definition scenario_A_finding :: pydict where
  "scenario_A_finding =
     [(''rule'', PStr ''hardcoded_secret''),
      (''message'', PStr ''Hardcoded secret detected in password''),
      (''line'', PInt 1),
      (''column'', PInt 0),
      (''severity'', PStr ''error''),
      (''fix_type'', PStr ''replace''),
      (''suggestion'', PStr ''Use environment variables instead (os.getenv)''),
      (''node'', scenario_A_assign)]"

text \<open>
  Scenario B: the text \<open>import os\<close>, newline, \<open>x = 1\<close> and its module: an import
  statement at line 1 and an assignment at line 2. The finding is the one the scenario
  expects of the unused-import rule.
\<close>

definition scenario_B_text :: string where
  "scenario_B_text = ''import os'' @ [CHR 0x0A] @ ''x = 1''"

definition scenario_B_import :: pyval where
  "scenario_B_import = with_pos 1 0 (Import [ImportAlias (Name ''os'') PNone])"

definition scenario_B_module :: pyval where
  "scenario_B_module =
     Module [SimpleStatementLine [scenario_B_import],
             SimpleStatementLine [with_pos 2 0 (Assign [AssignTarget (Name ''x'')] (Integer ''1''))]]
            scenario_B_text"

definition scenario_B_finding :: pydict where
  "scenario_B_finding =
     [(''rule'', PStr ''unused_import''),
      (''message'', PStr ''Unused import: os''),
      (''line'', PInt 1),
      (''column'', PInt 0),
      (''severity'', PStr ''warning''),
      (''fix_type'', PStr ''remove''),
      (''suggestion'', PStr ''Remove this unused import''),
      (''node'', scenario_B_import)]"

text \<open>
  Two issues aimed at one and the same node, the call \<open>eval(user_input)\<close> at line 1,
  column 0, with fix types that name handlers of the fixer.
\<close>

definition overlap_node :: pyval where
  "overlap_node = with_pos 1 0 (Call (Name ''eval'') [Arg (Name ''user_input'')])"

definition overlap_module :: pyval where
  "overlap_module = Module [SimpleStatementLine [cst_node ''Expr'' [(''value'', overlap_node)]]] ''eval(user_input)''"

definition overlap_first :: pydict where
  "overlap_first =
     [(''rule'', PStr ''unsafe_eval''), (''line'', PInt 1), (''column'', PInt 0),
      (''severity'', PStr ''error''), (''fix_type'', PStr ''remove_node''), (''node'', overlap_node)]"

definition overlap_second :: pydict where
  "overlap_second =
     [(''rule'', PStr ''unsafe_eval''), (''line'', PInt 1), (''column'', PInt 0),
      (''severity'', PStr ''error''), (''fix_type'', PStr ''replace_node''), (''node'', overlap_node)]"

text \<open>
  A module with a camelCase variable, and a module with a list comprehension that calls a
  function (the element of a \<open>ListComp\<close> node is its field \<open>elt\<close>).
\<close>

definition naming_module :: pyval where
  "naming_module =
     Module [SimpleStatementLine
               [with_pos 1 0 (Assign [AssignTarget (Name ''myValue'')] (Integer ''1''))]]
            ''myValue = 1''"

definition listcomp_module :: pyval where
  "listcomp_module =
     Module [SimpleStatementLine
               [cst_node ''Expr''
                  [(''value'',
                    with_pos 1 0 (cst_node ''ListComp''
                      [(''elt'', Call (Name ''f'') []),
                       (''for_in'', cst_node ''CompFor''
                          [(''target'', Name ''_''), (''iter'', Name ''xs'')])]))]]]
            ''[f() for _ in xs]''"

definition naming_finding :: pydict where
  "naming_finding =
     [(''rule'', PStr ''naming_convention''),
      (''message'', PStr (''Variable name '' @ [CHR 0x27] @ ''myValue'' @ [CHR 0x27] @ '' should be snake_case'')),
      (''line'', PInt 1),
      (''column'', PInt 0),
      (''severity'', PStr ''warning''),
      (''fix_type'', PStr ''rename''),
      (''suggestion'', PStr ''my_value''),
      (''node'', with_pos 1 0 (Assign [AssignTarget (Name ''myValue'')] (Integer ''1'')))]"

text \<open>
  An issue as the dict literal of \<open>RepeatedCalculationRule.apply\<close> writes it, aimed at
  the list comprehension.
\<close>

definition refactor_finding :: pydict where
  "refactor_finding =
     [(''rule'', PStr ''repeated_calculation''),
      (''message'', PStr ''Repeated call to f in list comprehension''),
      (''line'', PInt 1),
      (''column'', PInt 0),
      (''severity'', PStr ''warning''),
      (''fix_type'', PStr ''refactor''),
      (''suggestion'', PStr ''Move the calculation outside the loop''),
      (''node'', with_pos 1 0 (cst_node ''ListComp''
                      [(''elt'', Call (Name ''f'') []),
                       (''for_in'', cst_node ''CompFor''
                          [(''target'', Name ''_''), (''iter'', Name ''xs'')])]))]"

section \<open>The rule engine (core/rule_engine.py)\<close>

text \<open>
  Operations on configuration values, which come from YAML and may have any shape:
  \<open>'k' in c\<close>, \<open>c['k']\<close> and \<open>c.get('k', d)\<close> for a string key.
\<close>

definition py_contains_key :: "string \<Rightarrow> pyval \<Rightarrow> error + bool" where
  "py_contains_key k c =
     (case c of
        PDict kvs \<Rightarrow> Inr (map_of kvs k \<noteq> None)
      | PStr s \<Rightarrow> Inr (is_substring k s)
      | PList xs \<Rightarrow> Inr (PStr k \<in> set xs)
      | _ \<Rightarrow> Inl (TypeError ''argument is not iterable''))"

definition py_getitem :: "pyval \<Rightarrow> string \<Rightarrow> error + pyval" where
  "py_getitem c k =
     (case c of
        PDict kvs \<Rightarrow> dict_get kvs k
      | PStr s \<Rightarrow> Inl (TypeError ''string indices must be integers'')
      | PList xs \<Rightarrow> Inl (TypeError ''list indices must be integers or slices'')
      | _ \<Rightarrow> Inl (TypeError ''not subscriptable''))"

definition py_get :: "pyval \<Rightarrow> string \<Rightarrow> pyval \<Rightarrow> error + pyval" where
  "py_get c k d =
     (case c of
        PDict kvs \<Rightarrow> Inr (case map_of kvs k of Some v \<Rightarrow> v | None \<Rightarrow> d)
      | _ \<Rightarrow> Inl (AttributeError ''get''))"

text \<open>\<open>a in s\<close> for a string \<open>s\<close>: the left operand must be a string too.\<close>

definition py_in_str :: "pyval \<Rightarrow> string \<Rightarrow> error + bool" where
  "py_in_str a s =
     (case a of
        PStr p \<Rightarrow> Inr (is_substring p s)
      | _ \<Rightarrow> Inl (TypeError ''in <string> requires string as left operand''))"

record RuleEngine =
  engine_rules :: "(string \<times> pyval) list"
  engine_issues :: "pydict list"

text \<open>
  \<open>_check_rule\<close>. It appends at most one issue to \<open>self.issues\<close>; the issue has no
  \<open>fix_type\<close> and no \<open>node\<close>.
\<close>

definition check_rule_issue :: "pyval \<Rightarrow> string \<Rightarrow> pyval \<Rightarrow> error + pydict" where
  "check_rule_issue node rule_name rule_config =
     bind_err (py_getitem rule_config ''message'') (\<lambda>msg.
     bind_err (getattr node ''lineno'') (\<lambda>l.
     bind_err (getattr node ''col_offset'') (\<lambda>c.
     bind_err (py_get rule_config ''level'' (PStr ''warning'')) (\<lambda>sev.
     bind_err (py_get rule_config ''fix'' (PStr ''No fix available'')) (\<lambda>sug.
     Inr [(''rule'', PStr rule_name),
          (''message'', msg),
          (''line'', l),
          (''column'', c),
          (''severity'', sev),
          (''suggestion'', sug)])))))"

definition check_rule :: "RuleEngine \<Rightarrow> pyval \<Rightarrow> string \<Rightarrow> pyval \<Rightarrow> (error + unit) \<times> RuleEngine" where
  "check_rule self node rule_name rule_config =
     (case getattr node ''value'' of
        Inr (PStr node_value) \<Rightarrow>
          (case bind_err (py_get rule_config ''options'' (PDict [])) (\<lambda>opts.
                bind_err (py_contains_key ''bad_pattern'' opts) (\<lambda>has_pattern.
                  if has_pattern
                  then bind_err (py_getitem rule_config ''options'') (\<lambda>opts'.
                       bind_err (py_getitem opts' ''bad_pattern'') (\<lambda>pat.
                       bind_err (py_in_str pat node_value) (\<lambda>found.
                         if found
                         then bind_err (check_rule_issue node rule_name rule_config) (\<lambda>i. Inr (Some i))
                         else Inr None)))
                  else Inr None)) of
             Inl e \<Rightarrow> (Inl e, self)
           | Inr None \<Rightarrow> (Inr (), self)
           | Inr (Some issue) \<Rightarrow> (Inr (), self\<lparr>engine_issues := engine_issues self @ [issue]\<rparr>))
      | _ \<Rightarrow> (Inr (), self))"

text \<open>
  What the global name \<open>cst\<close> is bound to when \<open>apply_rules\<close> runs: nothing
  (\<open>None\<close>, reading the name raises NameError), or a module, given by what each of its
  attribute names holds: a class, or something that is not a class.
\<close>

datatype cst_attr = Cst_class string | Cst_other

type_synonym cst_binding = "(string \<Rightarrow> cst_attr option) option"

text \<open>
  rule_engine.py imports \<open>yaml\<close>, the typing names, \<open>Path\<close> and, from libcst, only
  \<open>CSTNode\<close>: the name \<open>cst\<close> is not bound in it.
\<close>

definition rule_engine_cst :: cst_binding where
  "rule_engine_cst = None"

text \<open>
  One round of the loop of \<open>apply_rules\<close>: the engine after the round, and the
  exception if the round raised one. Nothing in \<open>apply_rules\<close> catches an exception.
\<close>

definition rule_step :: "cst_binding \<Rightarrow> pyval \<Rightarrow> RuleEngine \<Rightarrow> string \<times> pyval \<Rightarrow> (error + unit) \<times> RuleEngine" where
  "rule_step cst node self rule =
     (case py_contains_key ''node_type'' (snd rule) of
        Inl e \<Rightarrow> (Inl e, self)
      | Inr False \<Rightarrow> (Inr (), self)
      | Inr True \<Rightarrow>
          (case cst of
             None \<Rightarrow> (Inl (NameError ''cst''), self)
           | Some ns \<Rightarrow>
               (case py_getitem (snd rule) ''node_type'' of
                  Inl e \<Rightarrow> (Inl e, self)
                | Inr (PStr type_name) \<Rightarrow>
                    (case ns type_name of
                       None \<Rightarrow> (Inl (AttributeError type_name), self)
                     | Some Cst_other \<Rightarrow> (Inl (TypeError ''isinstance() arg 2 must be a type''), self)
                     | Some (Cst_class cls) \<Rightarrow>
                         if py_isinstance node cls
                         then check_rule self node (fst rule) (snd rule)
                         else (Inr (), self))
                | Inr other \<Rightarrow> (Inl (TypeError ''attribute name must be string''), self))))"

fun apply_rules_loop :: "cst_binding \<Rightarrow> pyval \<Rightarrow> RuleEngine \<Rightarrow> (string \<times> pyval) list \<Rightarrow> (error + unit) \<times> RuleEngine" where
  "apply_rules_loop cst node self [] = (Inr (), self)"
| "apply_rules_loop cst node self (rule # rest) =
     (case rule_step cst node self rule of
        (Inl e, self') \<Rightarrow> (Inl e, self')
      | (Inr u, self') \<Rightarrow> apply_rules_loop cst node self' rest)"

definition apply_rules :: "cst_binding \<Rightarrow> RuleEngine \<Rightarrow> pyval \<Rightarrow> (error + unit) \<times> RuleEngine" where
  "apply_rules cst self node = apply_rules_loop cst node self (engine_rules self)"

text \<open>
  A configuration with two rules for \<open>SimpleString\<close> nodes: the first has no
  \<open>message\<close>, the second is complete. The namespace binds the libcst class names the
  example needs.
\<close>

definition broken_rule :: "string \<times> pyval" where
  "broken_rule =
     (''no_message'',
      PDict [(''node_type'', PStr ''SimpleString''),
             (''options'', PDict [(''bad_pattern'', PStr ''letmein'')])])"

definition sound_rule :: "string \<times> pyval" where
  "sound_rule =
     (''weak_password'',
      PDict [(''node_type'', PStr ''SimpleString''),
             (''options'', PDict [(''bad_pattern'', PStr ''letmein'')]),
             (''message'', PStr ''Weak password''),
             (''level'', PStr ''error'')])"

definition libcst_names :: "string \<Rightarrow> cst_attr option" where
  "libcst_names name =
     (if name \<in> set [''CSTNode'', ''Name'', ''SimpleString'', ''Assign'', ''Call'', ''Import'', ''Module'']
      then Some (Cst_class name)
      else if name = ''parse_module'' then Some Cst_other
      else None)"

definition literal_node :: pyval where
  "literal_node = with_pos 1 11 (SimpleString ([CHR 0x22] @ ''letmein123'' @ [CHR 0x22]))"

definition sound_issue :: pydict where
  "sound_issue =
     [(''rule'', PStr ''weak_password''),
      (''message'', PStr ''Weak password''),
      (''line'', PInt 1),
      (''column'', PInt 11),
      (''severity'', PStr ''error''),
      (''suggestion'', PStr ''No fix available'')]"

section \<open>The command line (cli.py, core/parser.py)\<close>

text \<open>
  The disk is a map from paths to entries. A directory entry holds the paths that
  \<open>rglob("*.py")\<close> yields under it. The world is the disk, the lines printed and the
  lines logged.
\<close>

datatype fs_entry = File string | Dir "string list"

type_synonym filesystem = "string \<Rightarrow> fs_entry option"

record world =
  w_files :: filesystem
  w_stdout :: "string list"
  w_log :: "string list"

definition print_line :: "string \<Rightarrow> world \<Rightarrow> world" where
  "print_line s w = w\<lparr>w_stdout := w_stdout w @ [s]\<rparr>"

definition print_lines :: "string list \<Rightarrow> world \<Rightarrow> world" where
  "print_lines ss w = w\<lparr>w_stdout := w_stdout w @ ss\<rparr>"

text \<open>
  What the command line calls and this repository's files do not define:
  \<open>cst.parse_module\<close> of libcst, \<open>RuleEngine.run_rules\<close> (cli.py calls it; the class
  in core/rule_engine.py has no such method) and the text \<open>json.dumps\<close> produces.
  They are parameters of the model.
\<close>

record externals =
  ext_parse_module :: "string \<Rightarrow> error + pyval"
  ext_run_rules :: "pyval \<Rightarrow> error + pydict list"
  ext_json_text :: "pydict list \<Rightarrow> string"

subsection \<open>CodeParser\<close>

record CodeParser =
  parser_file_path :: string
  parser_source_code :: string
  parser_module :: pyval

definition read_file :: "filesystem \<Rightarrow> string \<Rightarrow> error + string" where
  "read_file fs p =
     (case fs p of
        Some (File content) \<Rightarrow> Inr content
      | _ \<Rightarrow> Inl (RuntimeError (''Failed to read '' @ p)))"

definition CodeParser_init :: "externals \<Rightarrow> filesystem \<Rightarrow> string \<Rightarrow> error + CodeParser" where
  "CodeParser_init ext fs p =
     bind_err (read_file fs p) (\<lambda>source.
       case ext_parse_module ext source of
         Inl e \<Rightarrow> Inl (RuntimeError (''AST parsing error in '' @ p))
       | Inr m \<Rightarrow> Inr \<lparr>parser_file_path = p, parser_source_code = source, parser_module = m\<rparr>)"

definition get_ast :: "CodeParser \<Rightarrow> pyval" where
  "get_ast parser = parser_module parser"

subsection \<open>The fix command\<close>

record FixArgs =
  fix_path :: string
  fix_apply :: bool
  fix_only :: "string option"

text \<open>The marks that start two of the printed lines, as the bytes cli.py holds.\<close>

definition applied_mark :: string where
  "applied_mark = [CHR 0xC3, CHR 0xA2, CHR 0xC5, CHR 0x93, CHR 0xE2, CHR 0x80, CHR 0xA6]"

definition hint_mark :: string where
  "hint_mark = [CHR 0xC3, CHR 0xB0, CHR 0xC5, CHR 0xB8, CHR 0xE2, CHR 0x80, CHR 0x99, CHR 0xC2, CHR 0xA1]"

text \<open>\<open>[i for i in issues if i['rule'] == self.args.only]\<close>.\<close>

definition only_rule :: "string \<Rightarrow> pydict list \<Rightarrow> error + pydict list" where
  "only_rule name found =
     filter_err (\<lambda>i. bind_err (dict_get i ''rule'') (\<lambda>r. Inr (r = PStr name))) found"

text \<open>
  \<open>with open(py_file, 'w') as f: f.write(fixed_module.code)\<close>: opening truncates the
  file before \<open>fixed_module.code\<close> is read.
\<close>

definition write_fixed :: "string \<Rightarrow> pyval \<Rightarrow> world \<Rightarrow> (error + unit) \<times> world" where
  "write_fixed py_file fixed_module w =
     (let truncated = w\<lparr>w_files := (w_files w)(py_file \<mapsto> File [])\<rparr> in
      case getattr fixed_module ''code'' of
        Inl e \<Rightarrow> (Inl e, truncated)
      | Inr (PStr code) \<Rightarrow>
          (Inr (),
           print_line (applied_mark @ '' Applied fixes to '' @ py_file)
             (w\<lparr>w_files := (w_files w)(py_file \<mapsto> File code)\<rparr>))
      | Inr other \<Rightarrow> (Inl (TypeError ''write() argument must be str''), truncated))"

text \<open>The body of the loop over the files.\<close>

definition fix_file :: "externals \<Rightarrow> FixArgs \<Rightarrow> world \<Rightarrow> string \<Rightarrow> (error + unit) \<times> world" where
  "fix_file ext args w py_file =
     (case CodeParser_init ext (w_files w) py_file of
        Inl e \<Rightarrow> (Inl e, w)
      | Inr parser \<Rightarrow>
          (case ext_run_rules ext (get_ast parser) of
             Inl e \<Rightarrow> (Inl e, w)
           | Inr found \<Rightarrow>
               if found = [] then (Inr (), w)
               else
                 let w1 = print_line ([CHR 0x0A] @ ''Processing '' @ py_file @ '':'') w in
                 (case (case fix_only args of
                          None \<Rightarrow> Inr found
                        | Some name \<Rightarrow> if name = [] then Inr found else only_rule name found) of
                    Inl e \<Rightarrow> (Inl e, w1)
                  | Inr chosen \<Rightarrow>
                      (case apply_fixes (CodeFixer_init (get_ast parser)) chosen of
                         (fixed_module, fixer, printed) \<Rightarrow>
                           let w2 = print_line (generate_diff fixer) (print_lines printed w1) in
                           if fix_apply args
                           then write_fixed py_file fixed_module w2
                           else (Inr (), print_line (hint_mark @ '' Use --apply to apply these changes'') w2)))))"

fun fix_files :: "externals \<Rightarrow> FixArgs \<Rightarrow> world \<Rightarrow> string list \<Rightarrow> (error + unit) \<times> world" where
  "fix_files ext args w [] = (Inr (), w)"
| "fix_files ext args w (py_file # rest) =
     (case fix_file ext args w py_file of
        (Inl e, w') \<Rightarrow> (Inl e, w')
      | (Inr u, w') \<Rightarrow> fix_files ext args w' rest)"

definition run_fix :: "externals \<Rightarrow> FixArgs \<Rightarrow> world \<Rightarrow> (error + int) \<times> world" where
  "run_fix ext args w =
     (case w_files w (fix_path args) of
        None \<Rightarrow> (Inr 1, w\<lparr>w_log := w_log w @ [''Path not found: '' @ fix_path args]\<rparr>)
      | Some entry \<Rightarrow>
          (case fix_files ext args w
                  (case entry of Dir found \<Rightarrow> found | File content \<Rightarrow> [fix_path args]) of
             (Inl e, w') \<Rightarrow> (Inl e, w')
           | (Inr u, w') \<Rightarrow> (Inr 0, w')))"

subsection \<open>The check command\<close>

datatype out_format = Text | Json | Html

record CheckArgs =
  check_path :: string
  check_format :: out_format
  check_output :: "string option"
  check_no_copilot :: bool
  check_list_rules :: bool

definition list_rules_lines :: "string list" where
  "list_rules_lines =
     [''Available Rules:'', replicate 30 (CHR ''=''),
      [CHR 0x0A] @ ''Security:'', ''  - hardcoded_secret'', ''  - unsafe_eval'',
      [CHR 0x0A] @ ''Performance:'', ''  - nested_list_comprehension'', ''  - repeated_calculation'',
      [CHR 0x0A] @ ''Convention:'', ''  - naming_convention'', ''  - unused_import'']"

text \<open>
  \<open>_generate_text_report\<close>: one block per issue, after \<open>issue.pop('node', None)\<close>.
\<close>

definition text_block :: "pydict \<Rightarrow> error + string" where
  "text_block issue =
     bind_err (dict_get issue ''line'') (\<lambda>line.
     bind_err (dict_get issue ''column'') (\<lambda>column.
     bind_err (dict_get issue ''severity'') (\<lambda>severity.
     bind_err (dict_get issue ''rule'') (\<lambda>rule.
     bind_err (dict_get issue ''message'') (\<lambda>message.
     bind_err (dict_get issue ''suggestion'') (\<lambda>suggestion.
     Inr ((if severity = PStr ''error'' then [CHR 0x1B] @ ''[91m'' else [CHR 0x1B] @ ''[93m'') @
          py_str rule @ '' ('' @ py_str line @ '':'' @ py_str column @ '')'' @
          [CHR 0x1B] @ ''[0m'' @ [CHR 0x0A] @
          ''  Message: '' @ py_str message @ [CHR 0x0A] @
          ''  Suggestion: '' @ py_str suggestion @ [CHR 0x0A] @
          replicate 50 (CHR ''-'') @ [CHR 0x0A])))))))"

fun text_report_loop :: "string \<Rightarrow> pydict list \<Rightarrow> error + string" where
  "text_report_loop output [] = Inr output"
| "text_report_loop output (issue # rest) =
     (case text_block issue of
        Inl e \<Rightarrow> Inl e
      | Inr block \<Rightarrow> text_report_loop (output @ block) rest)"

definition generate_text_report :: "pydict list \<Rightarrow> error + string" where
  "generate_text_report found = text_report_loop [] found"

text \<open>
  \<open>_generate_html_report\<close>. Each issue is formatted into \<open>issue_template\<close>, which
  reads its keys \<open>rule\<close>, \<open>line\<close>, \<open>column\<close>, \<open>message\<close> and \<open>suggestion\<close>. The
  page template is then formatted with \<open>total\<close> and \<open>issues\<close>; its style sheet holds
  the text \<open>body { font-family: Arial, sans-serif; padding: 20px; }\<close>, and
  \<open>str.format\<close> reads the braces as a replacement field named \<open> font-family\<close>, for
  which no argument is passed: the call raises KeyError for every list of issues.
\<close>

definition html_block :: "pydict \<Rightarrow> error + string" where
  "html_block issue =
     bind_err (dict_get issue ''rule'') (\<lambda>rule.
     bind_err (dict_get issue ''line'') (\<lambda>line.
     bind_err (dict_get issue ''column'') (\<lambda>column.
     bind_err (dict_get issue ''message'') (\<lambda>message.
     bind_err (dict_get issue ''suggestion'') (\<lambda>suggestion.
     Inr ([CHR 0x0A] @ ''<div class='' @ [CHR 0x22] @ ''issue'' @ [CHR 0x22] @ ''>'' @ [CHR 0x0A] @
          ''    <div class='' @ [CHR 0x22] @ ''rule'' @ [CHR 0x22] @ ''>'' @ py_str rule @
          '' <span class='' @ [CHR 0x22] @ ''location'' @ [CHR 0x22] @ ''>Line '' @
          py_str line @ '':'' @ py_str column @ ''</span></div>'' @ [CHR 0x0A] @
          ''    <div class='' @ [CHR 0x22] @ ''message'' @ [CHR 0x22] @ ''>'' @ py_str message @
          ''</div>'' @ [CHR 0x0A] @
          ''    <div class='' @ [CHR 0x22] @ ''suggestion'' @ [CHR 0x22] @ ''>Suggestion: '' @
          py_str suggestion @ ''</div>'' @ [CHR 0x0A] @
          ''</div>'' @ [CHR 0x0A]))))))"

fun html_issues_loop :: "string \<Rightarrow> pydict list \<Rightarrow> error + string" where
  "html_issues_loop html_issues [] = Inr html_issues"
| "html_issues_loop html_issues (issue # rest) =
     (case html_block issue of
        Inl e \<Rightarrow> Inl e
      | Inr block \<Rightarrow> html_issues_loop (html_issues @ block) rest)"

definition generate_html_report :: "pydict list \<Rightarrow> error + string" where
  "generate_html_report found =
     bind_err (html_issues_loop [] found) (\<lambda>html_issues. Inl (KeyError '' font-family''))"

text \<open>
  \<open>json.dumps(issues, indent=2)\<close> raises TypeError when a value is an object (a syntax
  tree node is not JSON serialisable); otherwise it gives the text.
\<close>

fun json_safe :: "pyval \<Rightarrow> bool" where
  "json_safe (PObj cs attrs) = False"
| "json_safe (PList xs) = list_all json_safe xs"
| "json_safe (PDict kvs) = list_all (\<lambda>kv. json_safe (snd kv)) kvs"
| "json_safe v = True"

definition json_dumps :: "externals \<Rightarrow> pydict list \<Rightarrow> error + string" where
  "json_dumps ext found =
     (if list_all (\<lambda>i. json_safe (PDict i)) found
      then Inr (ext_json_text ext found)
      else Inl (TypeError ''Object is not JSON serializable''))"

definition output_results :: "externals \<Rightarrow> CheckArgs \<Rightarrow> world \<Rightarrow> pydict list \<Rightarrow> (error + unit) \<times> world" where
  "output_results ext args w found =
     (case (case check_format args of
              Json \<Rightarrow> json_dumps ext found
            | Html \<Rightarrow> generate_html_report found
            | Text \<Rightarrow> generate_text_report found) of
        Inl e \<Rightarrow> (Inl e, w)
      | Inr output \<Rightarrow>
          (case check_output args of
             None \<Rightarrow> (Inr (), print_line output w)
           | Some p \<Rightarrow>
               if p = [] then (Inr (), print_line output w)
               else (Inr (),
                     print_line (applied_mark @ '' Report saved to '' @ p)
                       (w\<lparr>w_files := (w_files w)(p \<mapsto> File output)\<rparr>))))"

text \<open>
  The first loop of \<open>_run_check\<close>: parse each file and extend \<open>issues\<close> with what
  \<open>run_rules\<close> returns for it.
\<close>

fun collect_issues :: "externals \<Rightarrow> filesystem \<Rightarrow> pydict list \<Rightarrow> string list \<Rightarrow> error + pydict list" where
  "collect_issues ext fs found [] = Inr found"
| "collect_issues ext fs found (py_file # rest) =
     bind_err (CodeParser_init ext fs py_file) (\<lambda>parser.
     bind_err (ext_run_rules ext (get_ast parser)) (\<lambda>added.
     collect_issues ext fs (found @ added) rest))"

text \<open>
  \<open>_run_check\<close>. The Copilot loop adds a suggestion only if the parser has an
  attribute \<open>get_code_snippet\<close>; \<open>CodeParser\<close> has none, so the loop changes nothing and
  is left out.
\<close>

definition run_check :: "externals \<Rightarrow> CheckArgs \<Rightarrow> world \<Rightarrow> (error + int) \<times> world" where
  "run_check ext args w =
     (if check_list_rules args then (Inr 0, print_lines list_rules_lines w)
      else
        case collect_issues ext (w_files w) []
               (case w_files w (check_path args) of
                  Some (Dir found) \<Rightarrow> found
                | _ \<Rightarrow> [check_path args]) of
          Inl e \<Rightarrow> (Inl e, w)
        | Inr found \<Rightarrow>
            (case output_results ext args w found of
               (Inl e, w') \<Rightarrow> (Inl e, w')
             | (Inr u, w') \<Rightarrow> (Inr (if found \<noteq> [] then 1 else 0), w')))"

text \<open>
  \<open>sys.exit(cli.run())\<close>: \<open>run\<close> returns what the command returns and catches only
  KeyboardInterrupt, so any other exception ends the process with a traceback and exit
  status 1.
\<close>

definition exit_status :: "error + int \<Rightarrow> int" where
  "exit_status r = (case r of Inl e \<Rightarrow> 1 | Inr n \<Rightarrow> n)"

subsection \<open>A small world for the examples\<close>

text \<open>
  Two files: \<open>secret.py\<close> holds the text of scenario A and \<open>clean.py\<close> holds
  \<open>x = 1\<close>. The parser knows these two texts, and the hardcoded-secret rule stands
  for \<open>run_rules\<close>.
\<close>

definition clean_module :: pyval where
  "clean_module =
     Module [SimpleStatementLine [with_pos 1 0 (Assign [AssignTarget (Name ''x'')] (Integer ''1''))]]
            ''x = 1''"

definition demo_ext :: externals where
  "demo_ext =
     \<lparr>ext_parse_module =
        (\<lambda>source. if source = scenario_A_text then Inr scenario_A_module
                   else if source = ''x = 1'' then Inr clean_module
                   else Inl (RuntimeError ''parse'')),
      ext_run_rules = HardcodedSecretRule_apply,
      ext_json_text = (\<lambda>found. ''[]'')\<rparr>"

definition demo_files :: filesystem where
  "demo_files =
     (\<lambda>p. if p = ''secret.py'' then Some (File scenario_A_text)
           else if p = ''clean.py'' then Some (File ''x = 1'')
           else None)"

definition demo_world :: world where
  "demo_world = \<lparr>w_files = demo_files, w_stdout = [], w_log = []\<rparr>"

definition dry_args :: FixArgs where
  "dry_args = \<lparr>fix_path = ''secret.py'', fix_apply = False, fix_only = None\<rparr>"


definition text_args :: CheckArgs where
  "text_args =
     \<lparr>check_path = ''secret.py'', check_format = Text, check_output = None,
      check_no_copilot = False, check_list_rules = False\<rparr>"

text \<open>An issue a report can show has the six keys the report reads.\<close>

definition reportable :: "pydict \<Rightarrow> bool" where
  "reportable issue =
     list_all (\<lambda>k. map_of issue k \<noteq> None)
       [''line'', ''column'', ''severity'', ''rule'', ''message'', ''suggestion'']"

section \<open>The suggestion proxy (models/copilot_proxy.py)\<close>

text \<open>
  The code snippet is a Python \<open>str\<close>: a sequence of Unicode code points, which may
  hold lone surrogates (\<open>sys.argv\<close> decodes undecodable bytes to them).
  \<open>str.encode()\<close> raises UnicodeEncodeError on a surrogate.
\<close>

type_synonym pystr = "nat list"

definition ascii :: "string \<Rightarrow> pystr" where
  "ascii s = map of_char s"

definition is_surrogate :: "nat \<Rightarrow> bool" where
  "is_surrogate c = (0xD800 \<le> c \<and> c \<le> 0xDFFF)"

text \<open>The code points \<open>str.isspace\<close> holds for, which \<open>str.strip()\<close> removes.\<close>

definition is_space :: "nat \<Rightarrow> bool" where
  "is_space c =
     (c \<in> set [9, 10, 11, 12, 13, 28, 29, 30, 31, 32, 133, 160, 5760, 8192, 8193, 8194, 8195,
                8196, 8197, 8198, 8199, 8200, 8201, 8202, 8232, 8233, 8239, 8287, 12288])"

definition strip :: "pystr \<Rightarrow> pystr" where
  "strip s = rev (dropWhile is_space (rev (dropWhile is_space s)))"

text \<open>\<open>_fallback_suggestion\<close>; \<open>lines[0]\<close> raises IndexError on an empty list.\<close>

definition fallback_suggestion :: "pystr \<Rightarrow> error + pyval" where
  "fallback_suggestion code_snippet =
     (case split_on 10 (strip code_snippet) of
        [] \<Rightarrow> Inl (IndexError ''list index out of range'')
      | first_line # others \<Rightarrow>
          if is_substring (ascii ''password = '') first_line \<and> is_substring (ascii [CHR 0x27]) first_line
          then Inr (PStr (''import os'' @ [CHR 0x0A] @ ''password = os.getenv('' @
                          [CHR 0x27] @ ''DB_PASSWORD'' @ [CHR 0x27] @ '')''))
          else if is_substring (ascii ''eval('') first_line
          then Inr (PStr (''import ast'' @ [CHR 0x0A] @ ''result = ast.literal_eval(input_str)''))
          else Inr (PStr ''# Consider refactoring this code for better security and performance''))"

record CopilotConfig =
  cfg_api_endpoint :: string
  cfg_auth_token :: "string option"
  cfg_cache_dir :: string
  cfg_rate_limit :: int
  cfg_timeout :: int
  cfg_enabled :: bool

text \<open>
  A cache file, as \<open>_load_from_cache\<close> sees it: one on which the \<open>try\<close> block raises
  (unreadable, not JSON, not a dict, a timestamp that is not a number), or an entry with
  its timestamp (0 when absent) and its response (\<open>None\<close> when absent). Clock readings
  are real numbers.
\<close>

datatype cache_file = Corrupt | Entry real pyval

text \<open>
  What changes between calls: the rate limiter's list of call times and the cache
  directory, a map from cache keys to files.
\<close>

record copilot_state =
  limiter_calls :: "real list"
  cache_files :: "string \<Rightarrow> cache_file option"

text \<open>An HTTP response: the status, the body text, and what \<open>response.json()\<close> gives.\<close>

record response =
  status_code :: int
  response_text :: string
  response_json :: "error + pyval"

text \<open>
  The surroundings of a call: whether \<open>import requests\<close> succeeded, what
  \<open>requests.post\<close> does for an endpoint, a token, a prompt and a timeout (it raises or
  returns a response), the SHA-256 hex digest of an encoded snippet, and whether the
  cache file can be written.
\<close>

record copilot_env =
  env_requests_available :: bool
  env_post :: "string \<Rightarrow> string \<Rightarrow> pystr \<Rightarrow> int \<Rightarrow> error + response"
  env_digest :: "pystr \<Rightarrow> string"
  env_cache_writable :: bool

text \<open>\<open>CopilotRateLimiter.allow_request\<close>, with \<open>max_calls\<close> and the period of 60 seconds.\<close>

definition allow_request :: "int \<Rightarrow> real \<Rightarrow> real list \<Rightarrow> bool \<times> real list" where
  "allow_request max_calls now calls =
     (let recent = filter (\<lambda>t. t > now - 60) calls in
      if int (length recent) \<ge> max_calls then (False, recent) else (True, recent @ [now]))"

definition get_cache_key :: "copilot_env \<Rightarrow> pystr \<Rightarrow> error + string" where
  "get_cache_key env code_snippet =
     (if list_ex is_surrogate code_snippet
      then Inl (UnicodeEncodeError ''surrogates not allowed'')
      else Inr (env_digest env code_snippet))"

definition load_from_cache :: "(string \<Rightarrow> cache_file option) \<Rightarrow> real \<Rightarrow> string \<Rightarrow> pyval" where
  "load_from_cache files now key =
     (case files key of
        None \<Rightarrow> PNone
      | Some Corrupt \<Rightarrow> PNone
      | Some (Entry timestamp resp) \<Rightarrow> if now - timestamp < 86400 then resp else PNone)"

definition save_to_cache :: "copilot_env \<Rightarrow> real \<Rightarrow> string \<Rightarrow> pyval \<Rightarrow> copilot_state \<Rightarrow> copilot_state" where
  "save_to_cache env now key resp st =
     (if env_cache_writable env
      then st\<lparr>cache_files := (cache_files st)(key \<mapsto> Entry now resp)\<rparr>
      else st)"

definition build_prompt :: "pystr \<Rightarrow> pydict option \<Rightarrow> pystr" where
  "build_prompt code_snippet ctx =
     ascii (''Please fix this Python code:'' @ [CHR 0x0A]) @ code_snippet @ ascii [CHR 0x0A, CHR 0x0A] @
     (case ctx of
        None \<Rightarrow> []
      | Some kvs \<Rightarrow>
          if kvs = [] then []
          else ascii (''Context:'' @ [CHR 0x0A]) @
               concat (map (\<lambda>kv. ascii (fst kv @ '': '' @ py_str (snd kv) @ [CHR 0x0A])) kvs)) @
     ascii ([CHR 0x0A] @ ''Fixed version:'' @ [CHR 0x0A])"

text \<open>
  \<open>response.json().get("choices", [{}])[0].get("text", "")\<close>, inside the \<open>try\<close>.
\<close>

definition response_suggestion :: "response \<Rightarrow> error + pyval" where
  "response_suggestion r =
     bind_err (response_json r) (\<lambda>body.
     bind_err (py_get body ''choices'' (PList [PDict []])) (\<lambda>choices.
     bind_err (py_index0 choices) (\<lambda>choice.
     py_get choice ''text'' (PStr []))))"

text \<open>
  \<open>get_suggestion\<close>. The \<open>try\<close> block holds the request and the handling of the
  response; the checks before it, the cache key and the prompt are outside.
\<close>

definition get_suggestion ::
  "copilot_env \<Rightarrow> CopilotConfig \<Rightarrow> real \<Rightarrow> copilot_state \<Rightarrow> pystr \<Rightarrow> pydict option
     \<Rightarrow> (error + pyval) \<times> copilot_state" where
  "get_suggestion env config now st code_snippet ctx =
     (if \<not> cfg_enabled config then (fallback_suggestion code_snippet, st)
      else if \<not> env_requests_available env then (fallback_suggestion code_snippet, st)
      else
        case cfg_auth_token config of
          None \<Rightarrow> (fallback_suggestion code_snippet, st)
        | Some token \<Rightarrow>
            if token = [] then (fallback_suggestion code_snippet, st)
            else
              case get_cache_key env code_snippet of
                Inl e \<Rightarrow> (Inl e, st)
              | Inr cache_key \<Rightarrow>
                  let cached = load_from_cache (cache_files st) now cache_key in
                  if py_truthy cached then (Inr cached, st)
                  else
                    case allow_request (cfg_rate_limit config) now (limiter_calls st) of
                      (allowed, calls) \<Rightarrow>
                        let st1 = st\<lparr>limiter_calls := calls\<rparr> in
                        if \<not> allowed then (fallback_suggestion code_snippet, st1)
                        else
                          case env_post env (cfg_api_endpoint config) token
                                 (build_prompt code_snippet ctx) (cfg_timeout config) of
                            Inl e \<Rightarrow> (fallback_suggestion code_snippet, st1)
                          | Inr r \<Rightarrow>
                              if status_code r = 200
                              then (case response_suggestion r of
                                      Inl e \<Rightarrow> (fallback_suggestion code_snippet, st1)
                                    | Inr suggestion \<Rightarrow>
                                        (Inr suggestion, save_to_cache env now cache_key suggestion st1))
                              else (fallback_suggestion code_snippet, st1))"

text \<open>
  An example surrounding: the library is there, a token is configured, the cache is
  empty and the service answers every request with status 503.
\<close>

definition demo_config :: CopilotConfig where
  "demo_config =
     \<lparr>cfg_api_endpoint = ''https://api.github.com/copilot_internal '',
      cfg_auth_token = Some ''token'',
      cfg_cache_dir = ''.copilot_cache'',
      cfg_rate_limit = 10,
      cfg_timeout = 10,
      cfg_enabled = True\<rparr>"

definition demo_env :: copilot_env where
  "demo_env =
     \<lparr>env_requests_available = True,
      env_post = (\<lambda>endpoint token prompt timeout.
         Inr \<lparr>status_code = 503, response_text = ''unavailable'', response_json = Inl (ValueError ''no JSON'')\<rparr>),
      env_digest = (\<lambda>s. ''0000''),
      env_cache_writable = True\<rparr>"

definition demo_state :: copilot_state where
  "demo_state = \<lparr>limiter_calls = [], cache_files = (\<lambda>key. None)\<rparr>"

section \<open>Properties of the fixer\<close>

lemma call_fix_module: "call_fix fm self issue = Inr (fixer_module self)"
  by (cases fm) (simp_all add: fix_remove_node_def fix_replace_node_def fix_insert_code_def)

lemma apply_fix_step_eq:
  "apply_fix_step st issue =
     (case fix_method_of issue of
        None \<Rightarrow> st
      | Some fm \<Rightarrow> ((fst st)\<lparr>fixer_changes := fixer_changes (fst st) @ [issue]\<rparr>, snd st))"
  by (simp add: apply_fix_step_def call_fix_module split: option.splits)

lemma apply_fixes_loop_eq:
  "apply_fixes_loop st issues =
     ((fst st)\<lparr>fixer_changes := fixer_changes (fst st) @ filter (\<lambda>i. fix_method_of i \<noteq> None) issues\<rparr>, snd st)"
proof (induction issues arbitrary: st)
  case Nil
  show ?case by simp
next
  case (Cons i issues)
  show ?case
    by (cases "fix_method_of i") (simp_all add: Cons.IH apply_fix_step_eq)
qed

lemma apply_fixes_eq:
  "apply_fixes self issues =
     (fixer_module self,
      self\<lparr>fixer_changes := fixer_changes self @ filter (\<lambda>i. fix_method_of i \<noteq> None) issues\<rparr>,
      [])"
  by (simp add: apply_fixes_def apply_fixes_loop_eq Let_def)

lemma getattr_fix_cases:
  "getattr_fix (''_fix_'' @ t) \<noteq> None \<longleftrightarrow> t = ''remove_node'' \<or> t = ''replace_node'' \<or> t = ''insert_code''"
  by (auto simp add: getattr_fix_def)

text \<open>
  C9. For every module and every list of issues, \<open>apply_fixes\<close> returns the module it
  was given: each of the three handlers returns the stored module unchanged, and
  \<open>generate_diff\<close> afterwards is the constant text "No changes applied".
\<close>

theorem apply_fixes_returns_input_module:
  "fst (apply_fixes (CodeFixer_init m) issues) = m
   \<and> fst (apply_fixes self issues) = fixer_module self
   \<and> fixer_module (fst (snd (apply_fixes self issues))) = fixer_module self
   \<and> fix_remove_node self issue = Inr (fixer_module self)
   \<and> fix_replace_node self issue = Inr (fixer_module self)
   \<and> fix_insert_code self issue = Inr (fixer_module self)
   \<and> generate_diff (fst (snd (apply_fixes self issues))) = ''No changes applied''"
  by (simp add: apply_fixes_eq CodeFixer_init_def fix_remove_node_def fix_replace_node_def
      fix_insert_code_def generate_diff_def)

theorem apply_fixes_returns_input_module_witness:
  "fst (apply_fixes (CodeFixer_init overlap_module) [overlap_first, overlap_second]) = overlap_module
   \<and> generate_diff (fst (snd (apply_fixes (CodeFixer_init overlap_module) [overlap_first, overlap_second])))
       = ''No changes applied''"
  using apply_fixes_returns_input_module
    [of overlap_module "[overlap_first, overlap_second]" "CodeFixer_init overlap_module"]
  by simp

text \<open>
  C5. When no issue of the list has a \<open>fix_type\<close> key, \<open>apply_fixes\<close> returns the
  input module itself; it also leaves the fixer as it was and prints nothing.
\<close>

theorem apply_fixes_without_fix_type:
  assumes "\<forall>i \<in> set issues. map_of i ''fix_type'' = None"
  shows "apply_fixes self issues = (fixer_module self, self, [])"
proof -
  have "filter (\<lambda>i. fix_method_of i \<noteq> None) issues = []"
    using assms by (simp add: fix_method_of_def filter_empty_conv)
  then show ?thesis
    by (simp add: apply_fixes_eq)
qed

theorem apply_fixes_without_fix_type_witness:
  "map_of sound_issue ''fix_type'' = None
   \<and> apply_fixes (CodeFixer_init scenario_A_module) [sound_issue, sound_issue]
       = (scenario_A_module, CodeFixer_init scenario_A_module, [])"
proof -
  have no_fix: "map_of sound_issue ''fix_type'' = None"
    by (simp add: sound_issue_def)
  then have "\<forall>i \<in> set [sound_issue, sound_issue]. map_of i ''fix_type'' = None"
    by simp
  from apply_fixes_without_fix_type [OF this, of "CodeFixer_init scenario_A_module"] no_fix
  show ?thesis
    by (simp add: CodeFixer_init_def)
qed

text \<open>
  C10. An issue whose \<open>fix_type\<close> names no \<open>_fix_<fix_type>\<close> method of the fixer, as
  \<open>rename\<close> and \<open>refactor\<close> do, is passed over in silence: the call goes as if the
  issue were not in the list (same module, same \<open>changes\<close>, nothing printed), and on its
  own the issue leaves the fixer untouched.
\<close>

theorem apply_fixes_skips_unhandled:
  assumes "map_of issue ''fix_type'' = Some t"
    and "getattr_fix (''_fix_'' @ py_str t) = None \<or> t = PStr ''rename'' \<or> t = PStr ''refactor''"
  shows "apply_fixes self (before @ issue # after) = apply_fixes self (before @ after)
         \<and> apply_fixes self [issue] = (fixer_module self, self, [])"
proof -
  have "getattr_fix (''_fix_'' @ py_str t) = None"
    using assms(2) by (auto simp add: getattr_fix_def py_str_def)
  then have "fix_method_of issue = None"
    using assms(1) by (simp add: fix_method_of_def)
  then show ?thesis
    by (simp add: apply_fixes_eq)
qed

text \<open>
  C1, as the code has it. \<open>apply_fixes\<close> compares no targets: every issue whose
  \<open>fix_type\<close> names a handler is handed to it and recorded in \<open>changes\<close>, in list
  order, whatever node, line and column an earlier issue had; the module stays the one
  given, and nothing is reported as skipped.
\<close>

theorem apply_fixes_ignores_overlap:
  assumes "fix_method_of a \<noteq> None" and "fix_method_of b \<noteq> None"
  shows "apply_fixes (CodeFixer_init m) (before @ a # between @ b # after)
         = (m,
            \<lparr>fixer_module = m,
             fixer_changes = filter (\<lambda>i. fix_method_of i \<noteq> None) before @ a #
                             filter (\<lambda>i. fix_method_of i \<noteq> None) between @ b #
                             filter (\<lambda>i. fix_method_of i \<noteq> None) after\<rparr>,
            [])"
  using assms by (simp add: apply_fixes_eq CodeFixer_init_def)

lemma overlap_methods:
  "fix_method_of overlap_first = Some Fix_remove_node"
  "fix_method_of overlap_second = Some Fix_replace_node"
  by (simp_all add: fix_method_of_def overlap_first_def overlap_second_def py_str_def getattr_fix_def)

theorem apply_fixes_ignores_overlap_witness:
  "fix_method_of overlap_first = Some Fix_remove_node
   \<and> fix_method_of overlap_second = Some Fix_replace_node
   \<and> apply_fixes (CodeFixer_init overlap_module) [overlap_first, overlap_second]
       = (overlap_module,
          \<lparr>fixer_module = overlap_module, fixer_changes = [overlap_first, overlap_second]\<rparr>,
          [])"
proof -
  have a: "fix_method_of overlap_first \<noteq> None" and b: "fix_method_of overlap_second \<noteq> None"
    by (simp_all add: overlap_methods)
  from apply_fixes_ignores_overlap [OF a b, of overlap_module "[]" "[]" "[]"] overlap_methods
  show ?thesis
    by simp
qed

text \<open>
  The two issues aim at the same node, line and column, and the second one is recorded
  as applied like the first, with nothing printed: the second of two overlapping
  directives is neither left out nor reported.
\<close>

theorem overlap_counterexample:
  "map_of overlap_first ''node'' = map_of overlap_second ''node''
   \<and> map_of overlap_first ''line'' = map_of overlap_second ''line''
   \<and> map_of overlap_first ''column'' = map_of overlap_second ''column''
   \<and> overlap_second \<in> set (fixer_changes (fst (snd
        (apply_fixes (CodeFixer_init overlap_module) [overlap_first, overlap_second]))))
   \<and> snd (snd (apply_fixes (CodeFixer_init overlap_module) [overlap_first, overlap_second])) = []"
  by (simp add: apply_fixes_eq overlap_methods CodeFixer_init_def)
     (simp add: overlap_first_def overlap_second_def)

section \<open>The rules on the scenario inputs\<close>

lemma secret_rule_finding:
  "HardcodedSecretRule_apply scenario_A_module = Inr [scenario_A_finding]"
  by code_simp

lemma secret_rule_without_positions:
  "HardcodedSecretRule_apply scenario_A_bare_module = Inl (AttributeError ''lineno'')"
  by code_simp

lemma unused_import_rule_finds_nothing:
  "UnusedImportRule_apply scenario_B_module = Inr []"
  by code_simp

lemma unused_import_issue_built:
  "unused_import_issue (PStr ''os'', scenario_B_import) = Inr scenario_B_finding"
  by code_simp

lemma naming_rule_finding:
  "NamingConventionRule_apply naming_module = Inr [naming_finding]"
  by code_simp

lemma repeated_rule_raises:
  "\<exists>e. RepeatedCalculationRule_apply node = Inl e"
  by (simp add: RepeatedCalculationRule_apply_def repeated_call_matcher_def bind_err_def)

lemma scenario_fix_types:
  "map_of scenario_A_finding ''fix_type'' = Some (PStr ''replace'')"
  "map_of scenario_A_bare_finding ''fix_type'' = Some (PStr ''replace'')"
  "map_of scenario_B_finding ''fix_type'' = Some (PStr ''remove'')"
  "map_of naming_finding ''fix_type'' = Some (PStr ''rename'')"
  "map_of refactor_finding ''fix_type'' = Some (PStr ''refactor'')"
  by (simp_all add: scenario_A_finding_def scenario_A_bare_finding_def scenario_B_finding_def
      naming_finding_def refactor_finding_def)

lemma scenario_no_method:
  "fix_method_of scenario_A_finding = None"
  "fix_method_of scenario_A_bare_finding = None"
  "fix_method_of scenario_B_finding = None"
  "fix_method_of naming_finding = None"
  "fix_method_of refactor_finding = None"
  by (simp_all add: fix_method_of_def scenario_fix_types py_str_def getattr_fix_def)

lemma getattr_Module_code: "getattr (Module body code) ''code'' = Inr (PStr code)"
  by (simp add: Module_def cst_node_def getattr_def)

lemma scenario_codes:
  "getattr scenario_A_module ''code'' = Inr (PStr scenario_A_text)"
  "getattr scenario_A_bare_module ''code'' = Inr (PStr scenario_A_text)"
  "getattr scenario_B_module ''code'' = Inr (PStr scenario_B_text)"
  by (simp_all only: scenario_A_module_def scenario_A_bare_module_def scenario_B_module_def
      getattr_Module_code)

lemma scenario_B_lines: "split_lines scenario_B_text = [''import os'', ''x = 1'']"
  by (simp add: scenario_B_text_def split_lines_def)

theorem apply_fixes_skips_unhandled_witness:
  "NamingConventionRule_apply naming_module = Inr [naming_finding]
   \<and> map_of naming_finding ''fix_type'' = Some (PStr ''rename'')
   \<and> map_of refactor_finding ''fix_type'' = Some (PStr ''refactor'')
   \<and> apply_fixes (CodeFixer_init naming_module) [overlap_first, naming_finding, overlap_second]
       = apply_fixes (CodeFixer_init naming_module) [overlap_first, overlap_second]
   \<and> apply_fixes (CodeFixer_init naming_module) [naming_finding]
       = (naming_module, CodeFixer_init naming_module, [])
   \<and> apply_fixes (CodeFixer_init listcomp_module) [refactor_finding]
       = (listcomp_module, CodeFixer_init listcomp_module, [])"
  using apply_fixes_skips_unhandled
      [of naming_finding "PStr ''rename''" "CodeFixer_init naming_module" "[overlap_first]" "[overlap_second]"]
    apply_fixes_skips_unhandled
      [of refactor_finding "PStr ''refactor''" "CodeFixer_init listcomp_module" "[]" "[]"]
    naming_rule_finding scenario_fix_types
  by (simp add: CodeFixer_init_def apply_fixes_def)

text \<open>
  C2, as the code has it. On the module of \<open>import os\<close>, \<open>x = 1\<close>, an apply pass over
  any list of issues returns the module as it was given: its text still has
  \<open>import os\<close> as line 1 and \<open>x = 1\<close> as line 2. The finding
  (\<open>unused_import\<close>, line 1, \<open>fix_type\<close> \<open>remove\<close>) finds no handler, so the pass
  records no change for it.
\<close>

theorem unused_import_scenario:
  "fst (apply_fixes (CodeFixer_init scenario_B_module) issues) = scenario_B_module
   \<and> getattr (fst (apply_fixes (CodeFixer_init scenario_B_module) issues)) ''code''
       = Inr (PStr scenario_B_text)
   \<and> split_lines scenario_B_text = [''import os'', ''x = 1'']
   \<and> map_of scenario_B_finding ''rule'' = Some (PStr ''unused_import'')
   \<and> map_of scenario_B_finding ''line'' = Some (PInt 1)
   \<and> apply_fixes (CodeFixer_init scenario_B_module) [scenario_B_finding]
       = (scenario_B_module, CodeFixer_init scenario_B_module, [])"
  by (simp add: apply_fixes_eq scenario_no_method scenario_codes scenario_B_lines CodeFixer_init_def)
     (simp add: scenario_B_finding_def)

theorem unused_import_scenario_witness:
  "getattr (fst (apply_fixes (CodeFixer_init scenario_B_module) [scenario_B_finding])) ''code''
     = Inr (PStr scenario_B_text)
   \<and> split_lines scenario_B_text = [''import os'', ''x = 1'']"
  using unused_import_scenario [of "[scenario_B_finding]"]
  by blast

text \<open>
  After the apply pass over the expected finding, line 1 of the module's text is still
  the import statement and the text still has two lines: line 1 was not removed.
\<close>

theorem unused_import_scenario_counterexample:
  "getattr (fst (apply_fixes (CodeFixer_init scenario_B_module) [scenario_B_finding])) ''code''
     = Inr (PStr scenario_B_text)
   \<and> hd (split_lines scenario_B_text) = ''import os''
   \<and> hd (split_lines scenario_B_text) \<noteq> ''x = 1''
   \<and> length (split_lines scenario_B_text) = 2"
  by (simp add: apply_fixes_eq scenario_codes scenario_B_lines CodeFixer_init_def)

text \<open>
  C3, as the code has it. On the module of \<open>password = "letmein123"\<close>, an apply pass
  over any list of issues returns the module as it was given, with the text it had: the
  line still holds the string literal. The finding (\<open>hardcoded_secret\<close>, severity
  \<open>error\<close>, \<open>fix_type\<close> \<open>replace\<close>) finds no handler, so the pass records no
  change for it.
\<close>

theorem hardcoded_secret_scenario:
  "fst (apply_fixes (CodeFixer_init scenario_A_bare_module) issues) = scenario_A_bare_module
   \<and> getattr (fst (apply_fixes (CodeFixer_init scenario_A_bare_module) issues)) ''code''
       = Inr (PStr scenario_A_text)
   \<and> is_substring ([CHR 0x22] @ ''letmein123'' @ [CHR 0x22]) scenario_A_text
   \<and> map_of scenario_A_bare_finding ''rule'' = Some (PStr ''hardcoded_secret'')
   \<and> map_of scenario_A_bare_finding ''severity'' = Some (PStr ''error'')
   \<and> map_of scenario_A_bare_finding ''fix_type'' = Some (PStr ''replace'')
   \<and> apply_fixes (CodeFixer_init scenario_A_bare_module) [scenario_A_bare_finding]
       = (scenario_A_bare_module, CodeFixer_init scenario_A_bare_module, [])"
  by (simp add: apply_fixes_eq scenario_no_method scenario_codes CodeFixer_init_def)
     (simp add: scenario_A_bare_finding_def scenario_A_text_def)

theorem hardcoded_secret_scenario_witness:
  "getattr (fst (apply_fixes (CodeFixer_init scenario_A_bare_module) [scenario_A_bare_finding])) ''code''
     = Inr (PStr scenario_A_text)
   \<and> is_substring ([CHR 0x22] @ ''letmein123'' @ [CHR 0x22]) scenario_A_text"
  using hardcoded_secret_scenario [of "[scenario_A_bare_finding]"]
  by blast

text \<open>
  After the apply pass over the expected finding, the module's text is the input text: it
  holds the string literal and no environment lookup (neither \<open>getenv\<close> nor
  \<open>environ\<close>).
\<close>

theorem hardcoded_secret_scenario_counterexample:
  "getattr (fst (apply_fixes (CodeFixer_init scenario_A_bare_module) [scenario_A_bare_finding])) ''code''
     = Inr (PStr scenario_A_text)
   \<and> is_substring ([CHR 0x22] @ ''letmein123'' @ [CHR 0x22]) scenario_A_text
   \<and> \<not> is_substring ''getenv'' scenario_A_text
   \<and> \<not> is_substring ''environ'' scenario_A_text"
  by (simp add: apply_fixes_eq scenario_codes CodeFixer_init_def)
     (simp add: scenario_A_text_def)

section \<open>Properties of the rule engine\<close>

lemma apply_rules_loop_append:
  "apply_rules_loop cst node self (pre @ post) =
     (case apply_rules_loop cst node self pre of
        (Inl e, self') \<Rightarrow> (Inl e, self')
      | (Inr u, self') \<Rightarrow> apply_rules_loop cst node self' post)"
proof (induction pre arbitrary: self)
  case Nil
  show ?case by simp
next
  case (Cons rule pre)
  show ?case
    by (simp add: Cons.IH split: prod.splits sum.splits)
qed

lemma check_rule_error_state:
  "check_rule self node rule_name rule_config = (Inl e, self') \<Longrightarrow> self' = self"
  by (auto simp add: check_rule_def split: sum.splits pyval.splits option.splits)

lemma rule_step_error_state:
  "rule_step cst node self rule = (Inl e, self') \<Longrightarrow> self' = self"
  by (auto simp add: rule_step_def
      split: sum.splits bool.splits option.splits pyval.splits cst_attr.splits if_splits
      dest: check_rule_error_state)

lemma check_rule_keeps_rules:
  "check_rule self node rule_name rule_config = (r, self') \<Longrightarrow> engine_rules self' = engine_rules self"
  by (auto simp add: check_rule_def split: sum.splits pyval.splits option.splits)

lemma sound_rule_alone:
  "apply_rules (Some libcst_names) \<lparr>engine_rules = [sound_rule], engine_issues = []\<rparr> literal_node
     = (Inr (), \<lparr>engine_rules = [sound_rule], engine_issues = [sound_issue]\<rparr>)"
  by code_simp

lemma broken_rule_raises:
  "rule_step (Some libcst_names) literal_node self broken_rule = (Inl (KeyError ''message''), self)"
  by (simp add: rule_step_def broken_rule_def py_contains_key_def py_getitem_def
      dict_get_def libcst_names_def literal_node_def SimpleString_def cst_node_def with_pos_def
      py_isinstance_def check_rule_def getattr_def py_get_def bind_err_def py_in_str_def
      check_rule_issue_def)

lemma unbound_cst_raises:
  "py_contains_key ''node_type'' (snd rule) = Inr True \<Longrightarrow>
   rule_step rule_engine_cst node self rule = (Inl (NameError ''cst''), self)"
  by (simp add: rule_step_def rule_engine_cst_def)

text \<open>
  C4, as the code has it. \<open>apply_rules\<close> has no handler. When the rules before one rule
  run without an exception and that rule's round raises, the exception leaves
  \<open>apply_rules\<close> for the caller; the engine is left as the earlier rules left it (no
  diagnostic is added to \<open>issues\<close>), and whatever rules come after are not run.
\<close>

theorem apply_rules_propagates:
  assumes "engine_rules self = pre @ rule # post"
    and "apply_rules_loop cst node self pre = (Inr (), self')"
    and "rule_step cst node self' rule = (Inl e, self'')"
  shows "apply_rules cst self node = (Inl e, self')"
proof -
  have "self'' = self'"
    using assms(3) by (rule rule_step_error_state)
  then have "apply_rules_loop cst node self' (rule # post) = (Inl e, self')"
    using assms(3) by simp
  then show ?thesis
    using assms(1,2) by (simp add: apply_rules_def apply_rules_loop_append)
qed

theorem apply_rules_propagates_witness:
  "apply_rules_loop (Some libcst_names) literal_node
      \<lparr>engine_rules = [sound_rule, broken_rule, sound_rule], engine_issues = []\<rparr> [sound_rule]
     = (Inr (), \<lparr>engine_rules = [sound_rule, broken_rule, sound_rule], engine_issues = [sound_issue]\<rparr>)
   \<and> apply_rules (Some libcst_names)
        \<lparr>engine_rules = [sound_rule, broken_rule, sound_rule], engine_issues = []\<rparr> literal_node
     = (Inl (KeyError ''message''),
        \<lparr>engine_rules = [sound_rule, broken_rule, sound_rule], engine_issues = [sound_issue]\<rparr>)"
proof -
  let ?self = "\<lparr>engine_rules = [sound_rule, broken_rule, sound_rule], engine_issues = []\<rparr>"
  let ?self' = "\<lparr>engine_rules = [sound_rule, broken_rule, sound_rule], engine_issues = [sound_issue]\<rparr>"
  have rules: "engine_rules ?self = [sound_rule] @ broken_rule # [sound_rule]"
    by simp
  have before: "apply_rules_loop (Some libcst_names) literal_node ?self [sound_rule] = (Inr (), ?self')"
    by code_simp
  have raises: "rule_step (Some libcst_names) literal_node ?self' broken_rule
                  = (Inl (KeyError ''message''), ?self')"
    by (rule broken_rule_raises)
  from apply_rules_propagates [OF rules before raises] before
  show ?thesis
    by simp
qed

text \<open>
  A rule set of two rules, the first with no \<open>message\<close> entry: \<open>apply_rules\<close> raises
  KeyError to its caller and the second rule, which alone reports one issue on this node,
  reports nothing. With \<open>cst\<close> unbound, as rule_engine.py leaves it, the call raises
  NameError at the first rule that has a \<open>node_type\<close>.
\<close>

theorem apply_rules_counterexample:
  "apply_rules (Some libcst_names)
      \<lparr>engine_rules = [broken_rule, sound_rule], engine_issues = []\<rparr> literal_node
     = (Inl (KeyError ''message''), \<lparr>engine_rules = [broken_rule, sound_rule], engine_issues = []\<rparr>)
   \<and> apply_rules (Some libcst_names)
        \<lparr>engine_rules = [sound_rule], engine_issues = []\<rparr> literal_node
     = (Inr (), \<lparr>engine_rules = [sound_rule], engine_issues = [sound_issue]\<rparr>)
   \<and> apply_rules rule_engine_cst
        \<lparr>engine_rules = [broken_rule, sound_rule], engine_issues = []\<rparr> literal_node
     = (Inl (NameError ''cst''), \<lparr>engine_rules = [broken_rule, sound_rule], engine_issues = []\<rparr>)"
  by code_simp

section \<open>Properties of the command line\<close>

subsection \<open>The fix command without \<open>--apply\<close>\<close>

lemma print_keeps_files:
  "w_files (print_line s w) = w_files w"
  "w_files (print_lines ss w) = w_files w"
  by (simp_all add: print_line_def print_lines_def)

lemma fix_file_dry:
  assumes "\<not> fix_apply args"
  shows "w_files (snd (fix_file ext args w py_file)) = w_files w"
  using assms
  by (simp add: fix_file_def print_keeps_files Let_def split: sum.splits prod.splits option.splits)

lemma fix_files_dry:
  assumes "\<not> fix_apply args"
  shows "w_files (snd (fix_files ext args w found)) = w_files w"
proof (induction found arbitrary: w)
  case Nil
  show ?case by simp
next
  case (Cons py_file rest)
  obtain r w' where step: "fix_file ext args w py_file = (r, w')"
    by (cases "fix_file ext args w py_file")
  have same: "w_files w' = w_files w"
    using fix_file_dry [OF assms, of ext w py_file] step by simp
  show ?case
  proof (cases r)
    case (Inl e)
    then show ?thesis using step same by simp
  next
    case (Inr u)
    then show ?thesis using step same Cons.IH [of w'] by simp
  qed
qed

text \<open>
  C6. Run without \<open>--apply\<close>, the fix command leaves the disk as it found it, for every
  path, every disk and whatever the parser and the rules return: every file has the
  content it had, and no file is created.
\<close>

theorem run_fix_dry_run:
  assumes "\<not> fix_apply args"
  shows "w_files (snd (run_fix ext args w)) = w_files w"
proof (cases "w_files w (fix_path args)")
  case None
  then show ?thesis by (simp add: run_fix_def)
next
  case (Some entry)
  obtain r w' where loop:
    "fix_files ext args w (case entry of Dir found \<Rightarrow> found | File content \<Rightarrow> [fix_path args]) = (r, w')"
    by (cases "fix_files ext args w (case entry of Dir found \<Rightarrow> found | File content \<Rightarrow> [fix_path args])")
  have "w_files w' = w_files w"
    using fix_files_dry [OF assms, of ext w "case entry of Dir found \<Rightarrow> found | File content \<Rightarrow> [fix_path args]"] loop
    by simp
  then show ?thesis
    using Some loop by (cases r) (simp_all add: run_fix_def)
qed

lemma dry_run_output:
  "fst (run_fix demo_ext dry_args demo_world) = Inr 0"
  "w_stdout (snd (run_fix demo_ext dry_args demo_world))
     = [[CHR 0x0A] @ ''Processing secret.py:'', ''No changes applied'',
        hint_mark @ '' Use --apply to apply these changes'']"
  by code_simp+

theorem run_fix_dry_run_witness:
  "\<not> fix_apply dry_args
   \<and> fst (run_fix demo_ext dry_args demo_world) = Inr 0
   \<and> w_files (snd (run_fix demo_ext dry_args demo_world)) = w_files demo_world
   \<and> w_files (snd (run_fix demo_ext dry_args demo_world)) ''secret.py'' = Some (File scenario_A_text)"
proof -
  have dry: "\<not> fix_apply dry_args"
    by (simp add: dry_args_def)
  have "w_files demo_world ''secret.py'' = Some (File scenario_A_text)"
    by (simp add: demo_world_def demo_files_def)
  with run_fix_dry_run [OF dry, of demo_ext demo_world] dry dry_run_output(1)
  show ?thesis
    by simp
qed

subsection \<open>The check command\<close>

lemma reportable_block:
  assumes "reportable issue"
  shows "\<exists>block. text_block issue = Inr block"
proof -
  from assms obtain l c s r m g where
    "map_of issue ''line'' = Some l" "map_of issue ''column'' = Some c"
    "map_of issue ''severity'' = Some s" "map_of issue ''rule'' = Some r"
    "map_of issue ''message'' = Some m" "map_of issue ''suggestion'' = Some g"
    by (auto simp add: reportable_def)
  then show ?thesis
    by (simp add: text_block_def dict_get_def bind_err_def)
qed

lemma text_report_loop_blocks:
  assumes "\<forall>i \<in> set found. reportable i"
  shows "text_report_loop acc found
           = Inr (acc @ concat (map (\<lambda>i. case text_block i of Inr b \<Rightarrow> b | Inl e \<Rightarrow> []) found))"
  using assms
proof (induction found arbitrary: acc)
  case Nil
  show ?case by simp
next
  case (Cons issue rest)
  from Cons.prems obtain block where "text_block issue = Inr block"
    using reportable_block [of issue] by auto
  then show ?case
    using Cons by simp
qed

text \<open>
  With the text format and no output file, a check whose issues all have the keys the
  report reads prints one block per issue and returns 1 if there is an issue, 0 if none.
\<close>

lemma run_check_text_format:
  assumes "\<not> check_list_rules args" and "check_format args = Text" and "check_output args = None"
    and "collect_issues ext (w_files w) []
           (case w_files w (check_path args) of Some (Dir fs) \<Rightarrow> fs | _ \<Rightarrow> [check_path args]) = Inr found"
    and "\<forall>i \<in> set found. reportable i"
  shows "run_check ext args w
           = (Inr (if found \<noteq> [] then 1 else 0),
              print_line (concat (map (\<lambda>i. case text_block i of Inr b \<Rightarrow> b | Inl e \<Rightarrow> []) found)) w)"
  using assms
  by (simp add: run_check_def output_results_def generate_text_report_def text_report_loop_blocks)

lemma html_report_raises: "\<exists>e. generate_html_report found = Inl e"
  by (cases "html_issues_loop [] found") (simp_all add: generate_html_report_def bind_err_def)

text \<open>
  With the HTML format, a check that reaches the report raises, whatever was found:
  nothing is printed or saved and no status is returned.
\<close>

lemma run_check_html_format:
  assumes "\<not> check_list_rules args" and "check_format args = Html"
  shows "(\<exists>e. run_check ext args w = (Inl e, w))"
proof (cases "collect_issues ext (w_files w) []
               (case w_files w (check_path args) of Some (Dir fs) \<Rightarrow> fs | _ \<Rightarrow> [check_path args])")
  case (Inl e)
  then show ?thesis using assms by (simp add: run_check_def)
next
  case (Inr found)
  obtain e where "generate_html_report found = Inl e"
    using html_report_raises by blast
  then show ?thesis
    using assms Inr by (simp add: run_check_def output_results_def)
qed

text \<open>
  On a directory that holds no Python file no file is parsed and \<open>run_rules\<close> is never
  called; with the HTML format the check raises all the same.
\<close>

lemma run_check_html_empty_directory:
  assumes "\<not> check_list_rules args" and "check_format args = Html"
    and "w_files w (check_path args) = Some (Dir [])"
  shows "run_check ext args w = (Inl (KeyError '' font-family''), w)"
    and "exit_status (fst (run_check ext args w)) = 1"
  using assms
  by (simp_all add: run_check_def output_results_def generate_html_report_def bind_err_def
      exit_status_def)

lemma clean_file_no_issues:
  "collect_issues demo_ext demo_files [] [''clean.py''] = Inr []"
  by code_simp

lemma secret_file_text_check:
  "fst (run_check demo_ext text_args demo_world) = Inr 1"
  "length (w_stdout (snd (run_check demo_ext text_args demo_world))) = 1"
  by code_simp+


section \<open>Properties of the suggestion proxy\<close>

lemma split_on_not_empty: "split_on sep s \<noteq> []"
  by (induction s) (simp_all split: list.splits)

lemma fallback_returns: "\<exists>s. fallback_suggestion code_snippet = Inr (PStr s)"
proof (cases "split_on 10 (strip code_snippet)")
  case Nil
  then show ?thesis using split_on_not_empty [of 10 "strip code_snippet"] by simp
next
  case (Cons first_line others)
  then show ?thesis by (simp add: fallback_suggestion_def)
qed

text \<open>
  Before the cache key is computed: a disabled proxy, a missing \<open>requests\<close> library and a
  missing or empty token each give the fallback suggestion, and leave the state alone.
\<close>

lemma get_suggestion_unavailable:
  assumes "\<not> cfg_enabled config \<or> \<not> env_requests_available env
           \<or> cfg_auth_token config = None \<or> cfg_auth_token config = Some []"
  shows "get_suggestion env config now st code_snippet ctx = (fallback_suggestion code_snippet, st)"
  using assms by (auto simp add: get_suggestion_def split: option.splits)

text \<open>
  After a cache miss, for a snippet without surrogates: an exceeded rate limit, a request
  that raises, a status other than 200 and a body the suggestion cannot be read from each
  give the fallback suggestion.
\<close>

lemma get_suggestion_falls_back:
  assumes "\<not> list_ex is_surrogate code_snippet"
    and "\<not> py_truthy (load_from_cache (cache_files st) now (env_digest env code_snippet))"
    and "cfg_auth_token config = Some token"
    and "\<not> fst (allow_request (cfg_rate_limit config) now (limiter_calls st))
         \<or> (\<exists>e. env_post env (cfg_api_endpoint config) token (build_prompt code_snippet ctx)
                    (cfg_timeout config) = Inl e)
         \<or> (\<exists>r. env_post env (cfg_api_endpoint config) token (build_prompt code_snippet ctx)
                    (cfg_timeout config) = Inr r
                \<and> (status_code r \<noteq> 200 \<or> (\<exists>e. response_suggestion r = Inl e)))"
  shows "fst (get_suggestion env config now st code_snippet ctx) = fallback_suggestion code_snippet"
proof -
  obtain allowed calls where lim:
    "allow_request (cfg_rate_limit config) now (limiter_calls st) = (allowed, calls)"
    by (cases "allow_request (cfg_rate_limit config) now (limiter_calls st)")
  have key: "get_cache_key env code_snippet = Inr (env_digest env code_snippet)"
    using assms(1) by (simp add: get_cache_key_def)
  show ?thesis
    using assms(2-4) lim key
    by (auto simp add: get_suggestion_def Let_def)
qed

text \<open>For a snippet without surrogates the call returns a value in every case.\<close>

lemma get_suggestion_returns:
  assumes "\<not> list_ex is_surrogate code_snippet"
  shows "\<exists>v. fst (get_suggestion env config now st code_snippet ctx) = Inr v"
proof -
  obtain s where fb: "fallback_suggestion code_snippet = Inr (PStr s)"
    using fallback_returns by blast
  obtain allowed calls where lim:
    "allow_request (cfg_rate_limit config) now (limiter_calls st) = (allowed, calls)"
    by (cases "allow_request (cfg_rate_limit config) now (limiter_calls st)")
  have key: "get_cache_key env code_snippet = Inr (env_digest env code_snippet)"
    using assms by (simp add: get_cache_key_def)
  show ?thesis
    by (simp add: get_suggestion_def Let_def fb lim key split: option.splits sum.splits)
qed

lemma surrogate_key:
  "get_cache_key env [0xDC80] = Inl (UnicodeEncodeError ''surrogates not allowed'')"
  by (simp add: get_cache_key_def is_surrogate_def)

text \<open>
  C7 at a snippet that is one lone surrogate (U+DC80), with the library there and a token
  configured: \<open>code_snippet.encode()\<close> in \<open>_get_cache_key\<close> is outside the \<open>try\<close>
  block, and its UnicodeEncodeError leaves \<open>get_suggestion\<close> for the caller, although
  the fallback suggestion for this snippet exists.
\<close>

theorem get_suggestion_surrogate_raises:
  "fst (get_suggestion demo_env demo_config 0 demo_state [0xDC80] None)
     = Inl (UnicodeEncodeError ''surrogates not allowed'')
   \<and> fallback_suggestion [0xDC80]
       = Inr (PStr ''# Consider refactoring this code for better security and performance'')"
proof -
  have "fst (get_suggestion demo_env demo_config 0 demo_state [0xDC80] None)
          = Inl (UnicodeEncodeError ''surrogates not allowed'')"
    by (simp add: get_suggestion_def demo_env_def demo_config_def surrogate_key)
  moreover have "fallback_suggestion [0xDC80]
          = Inr (PStr ''# Consider refactoring this code for better security and performance'')"
    by (simp add: fallback_suggestion_def strip_def is_space_def ascii_def)
  ultimately show ?thesis
    by simp
qed

end
